theory Spec2Isabelle
  imports Complex_Main "HOL-Library.AList"
begin

section \<open>JavaScript values used by the accounting code\<close>

text \<open>
  The money columns of the schema (\<open>amount\<close>, \<open>balanceDue\<close>, \<open>taxRate\<close>, ...) reach the
  code as strings, numbers, \<open>null\<close> or \<open>undefined\<close>, and the code converts them with
  \<open>Number(x || 0)\<close> or \<open>Number(x) || 0\<close>. The values are therefore modelled as they
  are at run time, not by their declared column type.

  A JavaScript number is modelled as \<open>NaN\<close> or a rational; the two infinities are
  outside the model. The operation \<open>+\<close> of this type, subtraction and division are exact
  and treat \<open>NaN\<close> as JavaScript does. The rounding that JavaScript applies to a sum is
  modelled apart, by \<open>double_add\<close> below, and the ageing functions are also given with
  the addition as a parameter, so that they can be read with either.
\<close>

datatype jsnum = NaN | Fin rat

instantiation jsnum :: comm_monoid_add
begin

definition zero_jsnum :: jsnum where
  "zero_jsnum = Fin 0"

fun plus_jsnum :: "jsnum \<Rightarrow> jsnum \<Rightarrow> jsnum" where
  "plus_jsnum (Fin a) (Fin b) = Fin (a + b)"
| "plus_jsnum _ _ = NaN"

instance
proof
  fix x y z :: jsnum
  show "0 + x = x"
    by (cases x) (simp_all add: zero_jsnum_def)
  show "x + y = y + x"
    by (cases x; cases y; simp)
  show "x + y + z = x + (y + z)"
    by (cases x; cases y; cases z; simp)
qed

end

text \<open>\<open>a - b\<close>, \<open>a / b\<close> and \<open>Math.floor(a)\<close>. Both divisions of the source divide by a
  non-zero literal; a zero divisor (an infinity in JavaScript) is mapped to \<open>NaN\<close> here.\<close>

fun js_minus :: "jsnum \<Rightarrow> jsnum \<Rightarrow> jsnum" where
  "js_minus (Fin a) (Fin b) = Fin (a - b)"
| "js_minus _ _ = NaN"

fun js_divide :: "jsnum \<Rightarrow> jsnum \<Rightarrow> jsnum" where
  "js_divide (Fin a) (Fin b) = (if b = 0 then NaN else Fin (a / b))"
| "js_divide _ _ = NaN"

fun Math_floor :: "jsnum \<Rightarrow> jsnum" where
  "Math_floor (Fin a) = Fin (of_int \<lfloor>a\<rfloor>)"
| "Math_floor NaN = NaN"

text \<open>\<open>a <= b\<close>, \<open>a > b\<close> and \<open>a === b\<close> on numbers: every comparison with \<open>NaN\<close> is
  false.\<close>

fun js_le :: "jsnum \<Rightarrow> jsnum \<Rightarrow> bool" where
  "js_le (Fin a) (Fin b) = (a \<le> b)"
| "js_le _ _ = False"

fun js_gt :: "jsnum \<Rightarrow> jsnum \<Rightarrow> bool" where
  "js_gt (Fin a) (Fin b) = (a > b)"
| "js_gt _ _ = False"

fun js_strict_eq :: "jsnum \<Rightarrow> jsnum \<Rightarrow> bool" where
  "js_strict_eq (Fin a) (Fin b) = (a = b)"
| "js_strict_eq _ _ = False"

text \<open>A \<open>Date\<close> object is its time value: milliseconds since the epoch, or \<open>NaN\<close> for an
  Invalid Date.\<close>

datatype Date = Date (getTime: jsnum)

datatype jsval = Undefined | Null | Str string | Num jsnum | DateObj Date

text \<open>Truthiness, as tested by \<open>!x\<close>, \<open>x && y\<close> and \<open>x || y\<close>.\<close>

fun truthy :: "jsval \<Rightarrow> bool" where
  "truthy Undefined = False"
| "truthy Null = False"
| "truthy (Str s) = (s \<noteq> [])"
| "truthy (Num NaN) = False"
| "truthy (Num (Fin r)) = (r \<noteq> 0)"
| "truthy (DateObj d) = True"

text \<open>\<open>x || y\<close> on values.\<close>

definition js_or :: "jsval \<Rightarrow> jsval \<Rightarrow> jsval" where
  "js_or x y = (if truthy x then x else y)"

text \<open>
  \<open>Number(x)\<close>. The conversion of a string (ECMAScript's StringToNumber) is the parameter
  \<open>S\<close> of every function that converts: what is proved holds for any such conversion.
\<close>

fun Number :: "(string \<Rightarrow> jsnum) \<Rightarrow> jsval \<Rightarrow> jsnum" where
  "Number S Undefined = NaN"
| "Number S Null = Fin 0"
| "Number S (Str s) = S s"
| "Number S (Num n) = n"
| "Number S (DateObj d) = getTime d"

text \<open>The two coercion idioms of the source: \<open>Number(x || 0)\<close> and \<open>Number(x) || 0\<close>.\<close>

definition Number_of_or0 :: "(string \<Rightarrow> jsnum) \<Rightarrow> jsval \<Rightarrow> jsnum" where
  "Number_of_or0 S x = Number S (js_or x (Num (Fin 0)))"

definition Number_or0 :: "(string \<Rightarrow> jsnum) \<Rightarrow> jsval \<Rightarrow> jsnum" where
  "Number_or0 S x = (let n = Number S x in if truthy (Num n) then n else Fin 0)"

section \<open>Addition of doubles\<close>

text \<open>
  The \<open>+=\<close> of the source adds JavaScript numbers, which are IEEE 754 binary64 values: the
  exact sum is rounded to the nearest double, a tie going to the even significand.
  \<open>round_double\<close> is this rounding on the rationals. \<open>binary_exponent a\<close> is the
  exponent \<open>e\<close> with \<open>2^e \<le> a < 2^(e+1)\<close> for a positive \<open>a\<close>, found by counting binary
  digits. The doubles around \<open>a\<close> are the multiples of \<open>2^(e-52)\<close>, and of \<open>2^(-1074)\<close>
  below the normal range. A result of magnitude \<open>2^1024\<close> or more is an infinity in
  JavaScript and is mapped to \<open>NaN\<close> here, as a division by zero is; the sign of zero is
  not modelled.
\<close>

fun bit_length :: "nat \<Rightarrow> nat" where
  "bit_length n = (if n = 0 then 0 else Suc (bit_length (n div 2)))"

declare bit_length.simps [simp del]

definition binary_exponent :: "rat \<Rightarrow> int" where
  "binary_exponent a =
     (if a \<ge> 1 then int (bit_length (nat \<lfloor>a\<rfloor>)) - 1
      else - int (bit_length (nat (\<lceil>1 / a\<rceil> - 1))))"

definition round_ties_even :: "rat \<Rightarrow> int" where
  "round_ties_even x =
     (let f = \<lfloor>x\<rfloor>; d = x - of_int f
      in if d < 1 / 2 then f else if d > 1 / 2 then f + 1 else if even f then f else f + 1)"

definition round_double :: "rat \<Rightarrow> jsnum" where
  "round_double x =
     (if x = 0 then Fin 0
      else let a = \<bar>x\<bar>;
               e = max (binary_exponent a) (- 1022);
               q = 2 powi (e - 52);
               r = of_int (round_ties_even (a / q)) * q
           in if r \<ge> 2 powi 1024 then NaN else Fin (if x < 0 then - r else r))"

text \<open>\<open>a + b\<close> on two doubles.\<close>

fun double_add :: "jsnum \<Rightarrow> jsnum \<Rightarrow> jsnum" where
  "double_add (Fin a) (Fin b) = round_double (a + b)"
| "double_add _ _ = NaN"

section \<open>Data model\<close>

text \<open>
  The types \<open>Transaction\<close>, \<open>TransactionItem\<close> and \<open>Party\<close> are declared in the shared
  schema, which is not among the sources; the records below carry the fields that the code
  under study reads or writes, typed by how the code uses them. The insert types are the
  records without \<open>id\<close> and \<open>createdAt\<close>, which the store adds. The field \<open>id\<close> is
  written \<open>id'\<close>.
\<close>

record InsertTransactionItem =
  transactionId :: int
  itemId :: int
  quantity :: jsval
  rate :: jsval
  amount :: jsval
  taxRate :: jsval
  taxAmount :: jsval
  totalAmount :: jsval

record TransactionItem = InsertTransactionItem +
  id' :: int
  createdAt :: Date

record Party =
  id' :: int
  name :: string
  state :: jsval

section \<open>GST breakup of the transaction detail view\<close>

text \<open>\<open>[...new Set(xs)]\<close>: the distinct elements in the order of their first occurrence.
  A \<open>Set\<close> compares numbers by SameValueZero, under which \<open>NaN\<close> equals itself.\<close>

definition Set_add :: "'a list \<Rightarrow> 'a \<Rightarrow> 'a list" where
  "Set_add s x = (if x \<in> set s then s else s @ [x])"

definition new_Set :: "'a list \<Rightarrow> 'a list" where
  "new_Set xs = foldl Set_add [] xs"

text \<open>The object built for each rate by \<open>calculateGstBreakup\<close>.\<close>

record GstGroup =
  rate :: jsnum
  taxableAmount :: jsnum
  igst :: jsnum
  cgst :: jsnum
  sgst :: jsnum
  total :: jsnum

text \<open>\<open>party?.state\<close>, where \<open>party\<close> is the result of \<open>parties?.find(...)\<close>.\<close>

definition party_state :: "Party option \<Rightarrow> jsval" where
  "party_state party = (case party of None \<Rightarrow> Undefined | Some p \<Rightarrow> state p)"

text \<open>
  \<open>calculateGstBreakup\<close> closes over \<open>transactionItems\<close> (undefined while the query is
  loading) and \<open>party\<close>; both are arguments here. \<open>None\<close> is the \<open>null\<close> it returns
  without items.
\<close>

definition calculateGstBreakup ::
  "(string \<Rightarrow> jsnum) \<Rightarrow> TransactionItem list option \<Rightarrow> Party option \<Rightarrow> GstGroup list option" where
  "calculateGstBreakup S transactionItems party =
     (case transactionItems of
        None \<Rightarrow> None
      | Some items \<Rightarrow>
          let gstRates = new_Set (map (\<lambda>item. Number_of_or0 S (taxRate item)) items)
          in Some (map (\<lambda>r.
               let itemsWithRate = filter (\<lambda>item. js_strict_eq (Number_of_or0 S (taxRate item)) r) items;
                   taxable = foldl (\<lambda>sum item. sum + Number_or0 S (InsertTransactionItem.amount item)) (Fin 0) itemsWithRate;
                   tax = foldl (\<lambda>sum item. sum + Number_or0 S (taxAmount item)) (Fin 0) itemsWithRate;
                   isIGST = (party_state party \<noteq> Str ''Same State as User'')
               in \<lparr> GstGroup.rate = r,
                    taxableAmount = taxable,
                    igst = (if isIGST then tax else Fin 0),
                    cgst = (if \<not> isIGST then js_divide tax (Fin 2) else Fin 0),
                    sgst = (if \<not> isIGST then js_divide tax (Fin 2) else Fin 0),
                    total = tax \<rparr>) gstRates))"

section \<open>Status badge\<close>

text \<open>
  \<open>new Date(v)\<close>: a copy of a Date, the parse of a string (\<open>Date.parse\<close>, the parameter
  \<open>D\<close>), or the time value of a number clipped to the range of dates.
\<close>

fun new_Date :: "(string \<Rightarrow> jsnum) \<Rightarrow> jsval \<Rightarrow> Date" where
  "new_Date D (DateObj d) = d"
| "new_Date D (Str s) = Date (D s)"
| "new_Date D (Num NaN) = Date NaN"
| "new_Date D (Num (Fin r)) =
     (if \<bar>r\<bar> > 8640000000000000 then Date NaN
      else Date (Fin (of_int (if r \<ge> 0 then \<lfloor>r\<rfloor> else \<lceil>r\<rceil>))))"
| "new_Date D Undefined = Date NaN"
| "new_Date D Null = Date (Fin 0)"

text \<open>
  The variables of the body of \<open>StatusBadge\<close>: the three destructured props and the local
  \<open>displayStatus\<close>. The body assigns to \<open>displayStatus\<close> only. \<open>now\<close> is the time value
  of \<open>new Date()\<close>, in milliseconds.
\<close>

record StatusBadge_vars =
  status :: string
  dueDate :: jsval
  balanceDue :: jsval
  displayStatus :: string

definition StatusBadge_body ::
  "(string \<Rightarrow> jsnum) \<Rightarrow> (string \<Rightarrow> jsnum) \<Rightarrow> int \<Rightarrow> StatusBadge_vars \<Rightarrow> StatusBadge_vars" where
  "StatusBadge_body S D now v0 =
     (let v = v0\<lparr>displayStatus := status v0\<rparr> in
      if truthy (balanceDue v) \<and> js_strict_eq (Number S (balanceDue v)) (Fin 0) then
        v\<lparr>displayStatus := ''paid''\<rparr>
      else if truthy (balanceDue v) \<and> js_gt (Number S (balanceDue v)) (Fin 0) \<and> truthy (dueDate v) then
        (let today = Date (Fin (of_int now));
             due = new_Date D (dueDate v)
         in if js_gt (getTime today) (getTime due) then v\<lparr>displayStatus := ''overdue''\<rparr> else v)
      else v)"

text \<open>The display status that the badge renders (through \<open>getStatusColor\<close> and
  \<open>getStatusLabel\<close>) for the given props.\<close>

definition StatusBadge ::
  "(string \<Rightarrow> jsnum) \<Rightarrow> (string \<Rightarrow> jsnum) \<Rightarrow> int \<Rightarrow> string \<Rightarrow> jsval \<Rightarrow> jsval \<Rightarrow> string" where
  "StatusBadge S D now st due bal =
     displayStatus (StatusBadge_body S D now
       \<lparr> status = st, dueDate = due, balanceDue = bal, displayStatus = [] \<rparr>)"

section \<open>The in-memory store\<close>

text \<open>
  \<open>dueDate\<close> is declared \<open>Date | null\<close>; \<open>None\<close> is \<open>null\<close> or a missing property, which the
  code does not tell apart (it tests \<open>!transaction.dueDate\<close>). \<open>amount\<close> and \<open>balanceDue\<close>
  are declared as decimal strings, but the controller stores the computed total in them,
  so they hold any value.
\<close>

record InsertTransaction =
  transactionNumber :: string
  transactionType :: string
  transactionDate :: Date
  partyId :: int
  amount :: jsval
  balanceDue :: jsval
  dueDate :: "Date option"
  status :: string
  userId :: int

record Transaction = InsertTransaction +
  id' :: int
  createdAt :: Date

text \<open>\<open>Partial<InsertTransaction>\<close>: \<open>None\<close> is a property that the object does not have.\<close>

record PartialInsertTransaction =
  transactionNumber :: "string option"
  transactionType :: "string option"
  transactionDate :: "Date option"
  partyId :: "int option"
  amount :: "jsval option"
  balanceDue :: "jsval option"
  dueDate :: "Date option option"
  status :: "string option"
  userId :: "int option"

text \<open>The object \<open>{}\<close>.\<close>

definition empty_updates :: PartialInsertTransaction where
  "empty_updates =
     \<lparr> transactionNumber = None, transactionType = None, transactionDate = None,
       partyId = None, amount = None, balanceDue = None, dueDate = None, status = None,
       userId = None \<rparr>"

text \<open>\<open>{ ...transaction, ...updates }\<close>: each property of \<open>updates\<close> replaces the one of
  \<open>transaction\<close>.\<close>

definition spread_updates :: "Transaction \<Rightarrow> PartialInsertTransaction \<Rightarrow> Transaction" where
  "spread_updates t u =
     t\<lparr> InsertTransaction.transactionNumber :=
          (case PartialInsertTransaction.transactionNumber u of None \<Rightarrow> InsertTransaction.transactionNumber t | Some v \<Rightarrow> v),
        InsertTransaction.transactionType :=
          (case PartialInsertTransaction.transactionType u of None \<Rightarrow> InsertTransaction.transactionType t | Some v \<Rightarrow> v),
        InsertTransaction.transactionDate :=
          (case PartialInsertTransaction.transactionDate u of None \<Rightarrow> InsertTransaction.transactionDate t | Some v \<Rightarrow> v),
        InsertTransaction.partyId :=
          (case PartialInsertTransaction.partyId u of None \<Rightarrow> InsertTransaction.partyId t | Some v \<Rightarrow> v),
        InsertTransaction.amount :=
          (case PartialInsertTransaction.amount u of None \<Rightarrow> InsertTransaction.amount t | Some v \<Rightarrow> v),
        InsertTransaction.balanceDue :=
          (case PartialInsertTransaction.balanceDue u of None \<Rightarrow> InsertTransaction.balanceDue t | Some v \<Rightarrow> v),
        InsertTransaction.dueDate :=
          (case PartialInsertTransaction.dueDate u of None \<Rightarrow> InsertTransaction.dueDate t | Some v \<Rightarrow> v),
        InsertTransaction.status :=
          (case PartialInsertTransaction.status u of None \<Rightarrow> InsertTransaction.status t | Some v \<Rightarrow> v),
        InsertTransaction.userId :=
          (case PartialInsertTransaction.userId u of None \<Rightarrow> InsertTransaction.userId t | Some v \<Rightarrow> v) \<rparr>"

text \<open>
  \<open>MemStorage\<close>: the two \<open>Map\<close>s and the two counters that the transaction operations
  use. A \<open>Map\<close> is an association list in insertion order; \<open>Map.set\<close> is \<open>AList.update\<close>
  (an existing key keeps its place, a new key goes last), \<open>Map.get\<close> is \<open>map_of\<close> and
  \<open>Array.from(m.values())\<close> is \<open>map snd\<close>. Identifiers are integers (the counters stay far
  below \<open>2^53\<close>). The argument \<open>now\<close> of an operation is the time value of the \<open>new Date()\<close>
  it evaluates.
\<close>

record MemStorage =
  transactions :: "(int \<times> Transaction) list"
  transactionItems :: "(int \<times> TransactionItem) list"
  transactionIdCounter :: int
  transactionItemIdCounter :: int

text \<open>The exceptions: the \<open>Error\<close> that \<open>updateTransaction\<close> throws for a missing id, and
  any exception thrown by code that is not among the sources, with its message.\<close>

datatype error = TransactionNotFound int | Thrown string

definition getTransaction :: "MemStorage \<Rightarrow> int \<Rightarrow> Transaction option" where
  "getTransaction st i = map_of (transactions st) i"

text \<open>
  The class body declares \<open>createTransaction\<close> and \<open>updateTransaction\<close> twice (the later
  declaration is the one in force). Both declarations of each do the same on the values
  modelled here: the counter is read and incremented, the new object has the insert
  fields, the id and the creation time, and is stored under the id; a missing id throws.
\<close>

definition createTransaction :: "int \<Rightarrow> InsertTransaction \<Rightarrow> MemStorage \<Rightarrow> Transaction \<times> MemStorage" where
  "createTransaction now insertTransaction st =
     (let i = transactionIdCounter st;
          st1 = st\<lparr>transactionIdCounter := i + 1\<rparr>;
          transaction = InsertTransaction.extend insertTransaction (Transaction.fields i (Date (Fin (of_int now))))
      in (transaction, st1\<lparr>transactions := AList.update i transaction (transactions st1)\<rparr>))"

definition updateTransaction ::
  "int \<Rightarrow> PartialInsertTransaction \<Rightarrow> MemStorage \<Rightarrow> error + Transaction \<times> MemStorage" where
  "updateTransaction i updates st =
     (case getTransaction st i of
        None \<Rightarrow> Inl (TransactionNotFound i)
      | Some transaction \<Rightarrow>
          let updatedTransaction = spread_updates transaction updates
          in Inr (updatedTransaction,
                  st\<lparr>transactions := AList.update i updatedTransaction (transactions st)\<rparr>))"

definition getTransactionItemsByTransactionId :: "MemStorage \<Rightarrow> int \<Rightarrow> TransactionItem list" where
  "getTransactionItemsByTransactionId st tid =
     filter (\<lambda>item. transactionId item = tid) (map snd (transactionItems st))"

definition createTransactionItem ::
  "int \<Rightarrow> InsertTransactionItem \<Rightarrow> MemStorage \<Rightarrow> TransactionItem \<times> MemStorage" where
  "createTransactionItem now insertTransactionItem st =
     (let i = transactionItemIdCounter st;
          st1 = st\<lparr>transactionItemIdCounter := i + 1\<rparr>;
          transactionItem = InsertTransactionItem.extend insertTransactionItem (TransactionItem.fields i (Date (Fin (of_int now))))
      in (transactionItem, st1\<lparr>transactionItems := AList.update i transactionItem (transactionItems st1)\<rparr>))"

section \<open>Ageing analysis\<close>

record Ageing =
  current :: jsnum
  days1to30 :: jsnum
  days31to60 :: jsnum
  days60plus :: jsnum

text \<open>The filter shared by the open-balance queries: owner, type, and one of the three
  open statuses.\<close>

definition isOpen :: "int \<Rightarrow> string \<Rightarrow> Transaction \<Rightarrow> bool" where
  "isOpen uid ty transaction =
     (InsertTransaction.userId transaction = uid \<and>
      InsertTransaction.transactionType transaction = ty \<and>
      InsertTransaction.status transaction \<in> set [''pending'', ''overdue'', ''partially_paid''])"

text \<open>The callback of \<open>forEach\<close>, the same in both ageing functions. \<open>now\<close> is the time
  value of \<open>new Date()\<close>.\<close>

definition ageingStep :: "(string \<Rightarrow> jsnum) \<Rightarrow> int \<Rightarrow> Ageing \<Rightarrow> Transaction \<Rightarrow> Ageing" where
  "ageingStep S now result transaction =
     (case InsertTransaction.dueDate transaction of
        None \<Rightarrow> result
      | Some d \<Rightarrow>
          let due = d;
              diffDays = Math_floor (js_divide (js_minus (Fin (of_int now)) (getTime due))
                                               (Fin (1000 * 60 * 60 * 24)));
              b = Number_of_or0 S (InsertTransaction.balanceDue transaction)
          in if js_le diffDays (Fin 0) then result\<lparr>current := current result + b\<rparr>
             else if js_le diffDays (Fin 30) then result\<lparr>days1to30 := days1to30 result + b\<rparr>
             else if js_le diffDays (Fin 60) then result\<lparr>days31to60 := days31to60 result + b\<rparr>
             else result\<lparr>days60plus := days60plus result + b\<rparr>)"

definition getReceivablesAgeing :: "(string \<Rightarrow> jsnum) \<Rightarrow> int \<Rightarrow> MemStorage \<Rightarrow> int \<Rightarrow> Ageing" where
  "getReceivablesAgeing S now st uid =
     (let openReceivables = filter (isOpen uid ''sales_invoice'') (map snd (transactions st));
          result = \<lparr>current = Fin 0, days1to30 = Fin 0, days31to60 = Fin 0, days60plus = Fin 0\<rparr>
      in foldl (ageingStep S now) result openReceivables)"

definition getPayablesAgeing :: "(string \<Rightarrow> jsnum) \<Rightarrow> int \<Rightarrow> MemStorage \<Rightarrow> int \<Rightarrow> Ageing" where
  "getPayablesAgeing S now st uid =
     (let openPayables = filter (isOpen uid ''purchase_bill'') (map snd (transactions st));
          result = \<lparr>current = Fin 0, days1to30 = Fin 0, days31to60 = Fin 0, days60plus = Fin 0\<rparr>
      in foldl (ageingStep S now) result openPayables)"

text \<open>
  The same callback and the same two functions with the addition of \<open>+=\<close> as the
  parameter \<open>add\<close>. With the exact \<open>+\<close> they are the definitions above; with
  \<open>double_add\<close> the buckets are rounded as they are at run time.
\<close>

definition ageingStep_with ::
  "(jsnum \<Rightarrow> jsnum \<Rightarrow> jsnum) \<Rightarrow> (string \<Rightarrow> jsnum) \<Rightarrow> int \<Rightarrow> Ageing \<Rightarrow> Transaction \<Rightarrow> Ageing" where
  "ageingStep_with add S now result transaction =
     (case InsertTransaction.dueDate transaction of
        None \<Rightarrow> result
      | Some d \<Rightarrow>
          let due = d;
              diffDays = Math_floor (js_divide (js_minus (Fin (of_int now)) (getTime due))
                                               (Fin (1000 * 60 * 60 * 24)));
              b = Number_of_or0 S (InsertTransaction.balanceDue transaction)
          in if js_le diffDays (Fin 0) then result\<lparr>current := add (current result) b\<rparr>
             else if js_le diffDays (Fin 30) then result\<lparr>days1to30 := add (days1to30 result) b\<rparr>
             else if js_le diffDays (Fin 60) then result\<lparr>days31to60 := add (days31to60 result) b\<rparr>
             else result\<lparr>days60plus := add (days60plus result) b\<rparr>)"

definition getReceivablesAgeing_with ::
  "(jsnum \<Rightarrow> jsnum \<Rightarrow> jsnum) \<Rightarrow> (string \<Rightarrow> jsnum) \<Rightarrow> int \<Rightarrow> MemStorage \<Rightarrow> int \<Rightarrow> Ageing" where
  "getReceivablesAgeing_with add S now st uid =
     (let openReceivables = filter (isOpen uid ''sales_invoice'') (map snd (transactions st));
          result = \<lparr>current = Fin 0, days1to30 = Fin 0, days31to60 = Fin 0, days60plus = Fin 0\<rparr>
      in foldl (ageingStep_with add S now) result openReceivables)"

definition getPayablesAgeing_with ::
  "(jsnum \<Rightarrow> jsnum \<Rightarrow> jsnum) \<Rightarrow> (string \<Rightarrow> jsnum) \<Rightarrow> int \<Rightarrow> MemStorage \<Rightarrow> int \<Rightarrow> Ageing" where
  "getPayablesAgeing_with add S now st uid =
     (let openPayables = filter (isOpen uid ''purchase_bill'') (map snd (transactions st));
          result = \<lparr>current = Fin 0, days1to30 = Fin 0, days31to60 = Fin 0, days60plus = Fin 0\<rparr>
      in foldl (ageingStep_with add S now) result openPayables)"

text \<open>The branch of the callback that a transaction takes, by the bucket that receives
  its balance; a transaction without a due date takes none.\<close>

datatype Bucket = Current | Days1to30 | Days31to60 | Days60plus

definition ageingBucket :: "int \<Rightarrow> Transaction \<Rightarrow> Bucket option" where
  "ageingBucket now transaction =
     (case InsertTransaction.dueDate transaction of
        None \<Rightarrow> None
      | Some d \<Rightarrow>
          let diffDays = Math_floor (js_divide (js_minus (Fin (of_int now)) (getTime d))
                                               (Fin (1000 * 60 * 60 * 24)))
          in Some (if js_le diffDays (Fin 0) then Current
                   else if js_le diffDays (Fin 30) then Days1to30
                   else if js_le diffDays (Fin 60) then Days31to60
                   else Days60plus))"

section \<open>Transaction controller\<close>

text \<open>
  Modelled from the spec: the result type of \<open>TransactionService.calculateTotals\<close>, which is
  not among the sources. The spec (4.1) names \<open>subtotal\<close>, \<open>totalTax\<close> and \<open>grandTotal\<close>;
  the controller reads \<open>grandTotal\<close> only.
\<close>

record Totals =
  subtotal :: jsval
  totalTax :: jsval
  grandTotal :: jsval

text \<open>
  The code that the controller imports and that is not among the sources, as parameters:
  the two zod schemas and the two methods of \<open>TransactionService\<close>. Each returns its value
  or the exception it throws. \<open>'h\<close> and \<open>'i\<close> are the raw JSON of a header and of a line
  item; the item schema is given the raw item and the id that the controller stamps on it
  (\<open>{...item, transactionId}\<close>). The two methods of the service may read the store.
\<close>

record ('h, 'i) Imports =
  insertTransactionSchema_parse :: "'h \<Rightarrow> error + InsertTransaction"
  insertTransactionItemSchema_parse :: "'i \<Rightarrow> int \<Rightarrow> error + InsertTransactionItem"
  validateTransaction :: "MemStorage \<Rightarrow> InsertTransaction \<Rightarrow> error + unit"
  calculateTotals :: "MemStorage \<Rightarrow> TransactionItem list \<Rightarrow> error + Totals"

text \<open>\<open>req.body\<close> of \<open>POST /transactions\<close>, an object: \<open>transaction\<close> is \<open>None\<close> when the
  property is falsy; \<open>items\<close> is falsy, an array, or a truthy value that is not an array.\<close>

datatype 'i items_field = Falsy | NotArray | Array "'i list"

record ('h, 'i) CreateBody =
  transaction :: "'h option"
  items :: "'i items_field"

text \<open>The response: the status code and the JSON sent.\<close>

datatype json =
    Message string
  | Failure string error
  | Created Transaction "TransactionItem list" Totals
  | Updated Transaction

record Response =
  statusCode :: nat
  body :: json

text \<open>The \<open>for\<close> loop over \<open>items\<close>: an exception leaves the loop, and the store keeps what
  was written before it.\<close>

fun createItems ::
  "('h, 'i) Imports \<Rightarrow> int \<Rightarrow> int \<Rightarrow> 'i list \<Rightarrow> TransactionItem list \<Rightarrow> MemStorage
     \<Rightarrow> (error + TransactionItem list) \<times> MemStorage" where
  "createItems imp now tid [] createdItems st = (Inr createdItems, st)"
| "createItems imp now tid (item # rest) createdItems st =
     (case insertTransactionItemSchema_parse imp item tid of
        Inl e \<Rightarrow> (Inl e, st)
      | Inr itemData \<Rightarrow>
          (case createTransactionItem now itemData st of
             (createdItem, st1) \<Rightarrow> createItems imp now tid rest (createdItems @ [createdItem]) st1))"

definition TransactionController_createTransaction ::
  "('h, 'i) Imports \<Rightarrow> int \<Rightarrow> ('h, 'i) CreateBody \<Rightarrow> MemStorage \<Rightarrow> Response \<times> MemStorage" where
  "TransactionController_createTransaction imp now req st =
     (let failed = (\<lambda>e. \<lparr>statusCode = 400, body = Failure ''Failed to create transaction'' e\<rparr>) in
      case transaction req of
        None \<Rightarrow> (\<lparr>statusCode = 400, body = Message ''Transaction and items are required''\<rparr>, st)
      | Some raw \<Rightarrow>
          if items req = Falsy then
            (\<lparr>statusCode = 400, body = Message ''Transaction and items are required''\<rparr>, st)
          else
            (case insertTransactionSchema_parse imp raw of
               Inl e \<Rightarrow> (failed e, st)
             | Inr transactionData \<Rightarrow>
                 (case validateTransaction imp st transactionData of
                    Inl e \<Rightarrow> (failed e, st)
                  | Inr _ \<Rightarrow>
                      (case createTransaction now transactionData st of
                         (createdTransaction, st1) \<Rightarrow>
                           (case createItems imp now (Transaction.id' createdTransaction)
                                   (case items req of Array xs \<Rightarrow> xs | _ \<Rightarrow> []) [] st1 of
                              (Inl e, st2) \<Rightarrow> (failed e, st2)
                            | (Inr createdItems, st2) \<Rightarrow>
                                (case calculateTotals imp st2 createdItems of
                                   Inl e \<Rightarrow> (failed e, st2)
                                 | Inr totals \<Rightarrow>
                                     (case updateTransaction (Transaction.id' createdTransaction)
                                             (empty_updates\<lparr>
                                                PartialInsertTransaction.amount := Some (grandTotal totals),
                                                PartialInsertTransaction.balanceDue := Some (grandTotal totals)\<rparr>)
                                             st2 of
                                        Inl e \<Rightarrow> (failed e, st2)
                                      | Inr (_, st3) \<Rightarrow>
                                          (\<lparr>statusCode = 201,
                                            body = Created createdTransaction createdItems totals\<rparr>, st3))))))))"

text \<open>
  \<open>PUT /transactions/:id\<close>; \<open>tid\<close> is \<open>parseInt(req.params.id)\<close>, an integer (a \<open>NaN\<close> is
  no key of the \<open>Map\<close> and is treated as any id that is missing), and the parameter
  \<open>partial_parse\<close> is \<open>insertTransactionSchema.partial().parse\<close>. The store returns an
  object or throws, so the test \<open>if (!transaction)\<close> that answers 404 is never taken: the
  object returned is truthy.
\<close>

definition TransactionController_updateTransaction ::
  "('p \<Rightarrow> error + PartialInsertTransaction) \<Rightarrow> int \<Rightarrow> 'p \<Rightarrow> MemStorage \<Rightarrow> Response \<times> MemStorage" where
  "TransactionController_updateTransaction partial_parse tid req_body st =
     (let failed = (\<lambda>e. \<lparr>statusCode = 400, body = Failure ''Failed to update transaction'' e\<rparr>) in
      case partial_parse req_body of
        Inl e \<Rightarrow> (failed e, st)
      | Inr transactionData \<Rightarrow>
          (case updateTransaction tid transactionData st of
             Inl e \<Rightarrow> (failed e, st)
           | Inr (updated, st1) \<Rightarrow> (\<lparr>statusCode = 200, body = Updated updated\<rparr>, st1)))"

section \<open>Values for the examples\<close>

text \<open>
  A string conversion for the examples: it agrees with \<open>Number\<close> on the empty string, on
  strings of decimal digits, and on strings with a character that no numeric literal has
  (\<open>NaN\<close>). It is used to evaluate examples only; the theorems hold for every conversion.
\<close>

definition digit_of :: "char \<Rightarrow> nat option" where
  "digit_of c =
     map_of [(CHR ''0'', 0), (CHR ''1'', 1), (CHR ''2'', 2), (CHR ''3'', 3), (CHR ''4'', 4),
             (CHR ''5'', 5), (CHR ''6'', 6), (CHR ''7'', 7), (CHR ''8'', 8), (CHR ''9'', 9)] c"

fun digits_value :: "nat \<Rightarrow> string \<Rightarrow> nat option" where
  "digits_value acc [] = Some acc"
| "digits_value acc (c # cs) =
     (case digit_of c of None \<Rightarrow> None | Some d \<Rightarrow> digits_value (10 * acc + d) cs)"

definition digits_to_number :: "string \<Rightarrow> jsnum" where
  "digits_to_number s = (case digits_value 0 s of None \<Rightarrow> NaN | Some n \<Rightarrow> Fin (of_nat n))"

text \<open>
  Modelled from the spec: \<open>TransactionService.calculateTotals\<close> is not among the sources.
  The spec (4.1) gives \<open>subtotal\<close> as the sum of the items' pre-tax \<open>amount\<close>, \<open>totalTax\<close>
  as the sum of their \<open>taxAmount\<close>, and \<open>grandTotal = subtotal + totalTax\<close>, with absent or
  malformed numeric fields coerced to 0. It instantiates the parameter in the examples.
\<close>

definition calculateTotals_spec :: "(string \<Rightarrow> jsnum) \<Rightarrow> TransactionItem list \<Rightarrow> Totals" where
  "calculateTotals_spec S its =
     (let sub = sum_list (map (\<lambda>item. Number_or0 S (InsertTransactionItem.amount item)) its);
          tax = sum_list (map (\<lambda>item. Number_or0 S (taxAmount item)) its)
      in \<lparr>subtotal = Num sub, totalTax = Num tax, grandTotal = Num (sub + tax)\<rparr>)"

text \<open>
  Imports for the examples: a raw header or item is \<open>None\<close> when its schema rejects it and
  otherwise the parsed value; the item schema keeps the stamped transaction id; the service
  accepts every header and computes the totals of the spec.
\<close>

definition demo_imports :: "(InsertTransaction option, InsertTransactionItem option) Imports" where
  "demo_imports =
     \<lparr> insertTransactionSchema_parse =
         (\<lambda>raw. case raw of None \<Rightarrow> Inl (Thrown ''invalid transaction'') | Some t \<Rightarrow> Inr t),
       insertTransactionItemSchema_parse =
         (\<lambda>raw tid. case raw of None \<Rightarrow> Inl (Thrown ''invalid item'')
                     | Some it \<Rightarrow> Inr (it\<lparr>transactionId := tid\<rparr>)),
       validateTransaction = (\<lambda>st t. Inr ()),
       calculateTotals = (\<lambda>st its. Inr (calculateTotals_spec digits_to_number its)) \<rparr>"

text \<open>The laptop line of the demo data, and a sales invoice header whose caller-supplied
  \<open>amount\<close> and \<open>balanceDue\<close> are not the total of its lines.\<close>

definition demo_item :: InsertTransactionItem where
  "demo_item =
     \<lparr> transactionId = 0, itemId = 1, quantity = Str ''1'',
       InsertTransactionItem.rate = Str ''45000'',
       InsertTransactionItem.amount = Str ''45000'', taxRate = Str ''5'',
       taxAmount = Str ''2250'', totalAmount = Str ''47250'' \<rparr>"

definition demo_header :: InsertTransaction where
  "demo_header =
     \<lparr> InsertTransaction.transactionNumber = ''INV-2023-042'',
       InsertTransaction.transactionType = ''sales_invoice'',
       InsertTransaction.transactionDate = Date (Fin 0),
       InsertTransaction.partyId = 1,
       InsertTransaction.amount = Str ''100'',
       InsertTransaction.balanceDue = Str ''0'',
       InsertTransaction.dueDate = Some (Date (Fin 2592000000)),
       InsertTransaction.status = ''pending'',
       InsertTransaction.userId = 1 \<rparr>"

definition empty_store :: MemStorage where
  "empty_store =
     \<lparr> transactions = [], transactionItems = [], transactionIdCounter = 1,
       transactionItemIdCounter = 1 \<rparr>"


text \<open>
  An open sales invoice of owner 1 with the given id, balance and due instant. Two stores for
  the instant 3891600000 (45 days and an hour after the epoch): one with balances "18750"
  and "42500" that fell due 45 and 15 days before, and one with the balances 0.3, 0.2
  and 0.1, as the doubles that these literals denote, that fall due 45 and 10 days before
  and 5 days after.
\<close>

definition invoice_with :: "int \<Rightarrow> jsval \<Rightarrow> int \<Rightarrow> Transaction" where
  "invoice_with i bal due =
     InsertTransaction.extend
       (demo_header\<lparr> InsertTransaction.balanceDue := bal,
                      InsertTransaction.dueDate := Some (Date (Fin (of_int due))) \<rparr>)
       (Transaction.fields i (Date (Fin 0)))"

definition two_invoice_store :: MemStorage where
  "two_invoice_store =
     empty_store\<lparr>transactions :=
       [(1, invoice_with 1 (Str ''18750'') 0), (2, invoice_with 2 (Str ''42500'') 2592000000)]\<rparr>"

definition rounding_store :: MemStorage where
  "rounding_store =
     empty_store\<lparr>transactions :=
       [(1, invoice_with 1 (Num (Fin (5404319552844595 / 18014398509481984))) 0),
        (2, invoice_with 2 (Num (Fin (3602879701896397 / 18014398509481984))) 3024000000),
        (3, invoice_with 3 (Num (Fin (3602879701896397 / 36028797018963968))) 4320000000)]\<rparr>"

text \<open>The requests of the examples: two valid lines; a valid line followed by a rejected
  one; a rejected header.\<close>

definition demo_request :: "(InsertTransaction option, InsertTransactionItem option) CreateBody" where
  "demo_request = \<lparr>transaction = Some (Some demo_header), items = Array [Some demo_item, Some demo_item]\<rparr>"

definition demo_rejected_request :: "(InsertTransaction option, InsertTransactionItem option) CreateBody" where
  "demo_rejected_request = \<lparr>transaction = Some (Some demo_header), items = Array [Some demo_item, None]\<rparr>"

definition demo_invalid_header_request :: "(InsertTransaction option, InsertTransactionItem option) CreateBody" where
  "demo_invalid_header_request = \<lparr>transaction = Some None, items = Array [Some demo_item]\<rparr>"

text \<open>
  The item of the example of the specification (amount 45000, rate 5, tax 2250, as
  numbers), the laptop line of the demo data as a stored item, the same line with a
  \<open>taxRate\<close> that is not a number, and two parties.
\<close>

definition spec_example_item :: TransactionItem where
  "spec_example_item =
     \<lparr> transactionId = 1, itemId = 1, quantity = Undefined,
       InsertTransactionItem.rate = Undefined,
       InsertTransactionItem.amount = Num (Fin 45000), taxRate = Num (Fin 5),
       taxAmount = Num (Fin 2250), totalAmount = Undefined,
       TransactionItem.id' = 1, TransactionItem.createdAt = Date (Fin 0) \<rparr>"

definition maharashtra_party :: Party where
  "maharashtra_party = \<lparr> Party.id' = 1, name = ''GlobalTech Solutions'', state = Str ''Maharashtra'' \<rparr>"

definition same_state_party :: Party where
  "same_state_party = \<lparr> Party.id' = 2, name = ''Local Traders'', state = Str ''Same State as User'' \<rparr>"

definition demo_line :: TransactionItem where
  "demo_line = InsertTransactionItem.extend demo_item (TransactionItem.fields 1 (Date (Fin 0)))"

definition bad_rate_line :: TransactionItem where
  "bad_rate_line = demo_line\<lparr>taxRate := Str ''abc''\<rparr>"

section \<open>An invariant of the item loop\<close>

text \<open>The items created so far are in the store under their ids, which are below the
  counter.\<close>

definition items_stored :: "TransactionItem list \<Rightarrow> MemStorage \<Rightarrow> bool" where
  "items_stored its st =
     (\<forall>it \<in> set its. map_of (transactionItems st) (TransactionItem.id' it) = Some it \<and>
                      TransactionItem.id' it < transactionItemIdCounter st)"

section \<open>The bucket rule in the words of the specification\<close>


section \<open>The bucket totals in the words of the specification\<close>

text \<open>
  What a bucket holds: the balances \<open>Number(balanceDue || 0)\<close> of the transactions of
  the list that fall in it, added to 0 one after the other in the order of the list.
\<close>

definition bucket_sum ::
  "(jsnum \<Rightarrow> jsnum \<Rightarrow> jsnum) \<Rightarrow> (string \<Rightarrow> jsnum) \<Rightarrow> int \<Rightarrow> Bucket \<Rightarrow> Transaction list \<Rightarrow> jsnum" where
  "bucket_sum add S now b ts =
     foldl add (Fin 0)
       (map (\<lambda>t. Number_of_or0 S (InsertTransaction.balanceDue t))
          (filter (\<lambda>t. ageingBucket now t = Some b) ts))"

text \<open>\<open>current + days1to30 + days31to60 + days60plus\<close>, added from left to right.\<close>

definition spec_bucket_total :: "(jsnum \<Rightarrow> jsnum \<Rightarrow> jsnum) \<Rightarrow> Ageing \<Rightarrow> jsnum" where
  "spec_bucket_total add a = add (add (add (current a) (days1to30 a)) (days31to60 a)) (days60plus a)"

text \<open>An addition that is exact on the whole numbers up to \<open>2^53\<close>.\<close>

definition adds_whole_numbers_exactly :: "(jsnum \<Rightarrow> jsnum \<Rightarrow> jsnum) \<Rightarrow> bool" where
  "adds_whole_numbers_exactly add =
     (\<forall>m n :: nat. m + n \<le> 2 ^ 53 \<longrightarrow> add (Fin (of_nat m)) (Fin (of_nat n)) = Fin (of_nat (m + n)))"

section \<open>Ageing analysis: proofs\<close>





text \<open>A due date that is an Invalid Date makes \<open>diffDays\<close> \<open>NaN\<close>: the three comparisons are
  false and the balance goes to \<open>days60plus\<close>.\<close>

lemma ageingStep_invalid_date:
  "InsertTransaction.dueDate t = Some (Date NaN) \<Longrightarrow>
     ageingStep S now r t
       = r\<lparr>days60plus := days60plus r + Number_of_or0 S (InsertTransaction.balanceDue t)\<rparr>"
  by (simp add: ageingStep_def)



section \<open>Ageing analysis with rounded addition: proofs\<close>

text \<open>The exponent found by counting digits, and the rounding of a number whose exponent
  and rounded significand are known.\<close>

lemma bit_length_eq: "2 ^ k \<le> n \<Longrightarrow> n < 2 ^ Suc k \<Longrightarrow> bit_length n = Suc k"
proof (induction k arbitrary: n)
  case 0
  then have "n = 1" by simp
  then show ?case by (simp add: bit_length.simps[of "Suc 0"] bit_length.simps[of 0])
next
  case (Suc k)
  have "2 ^ k \<le> n div 2" and "n div 2 < 2 ^ Suc k"
    using Suc.prems by auto
  then have "bit_length (n div 2) = Suc k"
    by (rule Suc.IH)
  moreover have "(0::nat) < 2 ^ Suc k"
    by simp
  then have "n \<noteq> 0"
    using Suc.prems(1) by linarith
  ultimately show ?case
    by (simp add: bit_length.simps[of n])
qed

lemma binary_exponent_eq:
  assumes pos: "0 < a" and lo: "2 powi e \<le> a" and hi: "a < 2 powi (e + 1)"
  shows "binary_exponent a = e"
proof (cases "a \<ge> 1")
  case True
  have e0: "0 \<le> e"
  proof (rule ccontr)
    assume "\<not> 0 \<le> e"
    then have "e + 1 \<le> 0" by simp
    then have "(2::rat) powi (e + 1) \<le> 2 powi 0"
      by (intro power_int_increasing) simp_all
    with hi True show False by simp
  qed
  define k where "k = nat e"
  have ek: "e = int k" using e0 by (simp add: k_def)
  have lo': "(2::rat) ^ k \<le> a" and hi': "a < (2::rat) ^ Suc k"
    using lo hi by (simp_all add: ek power_int_add)
  define m where "m = nat \<lfloor>a\<rfloor>"
  have fl: "\<lfloor>a\<rfloor> = int m" using True by (simp add: m_def)
  have "(2::int) ^ k \<le> \<lfloor>a\<rfloor>"
    using lo' by (simp add: le_floor_iff)
  then have 1: "2 ^ k \<le> m" unfolding fl by (metis of_nat_le_iff of_nat_numeral of_nat_power)
  have "\<lfloor>a\<rfloor> < (2::int) ^ Suc k"
    using hi' by (simp add: floor_less_iff)
  then have 2: "m < 2 ^ Suc k" unfolding fl by (metis of_nat_less_iff of_nat_numeral of_nat_power)
  have "bit_length m = Suc k"
    using 1 2 by (rule bit_length_eq)
  then show ?thesis
    using True by (simp add: binary_exponent_def m_def[symmetric] ek)
next
  case False
  then have a1: "a < 1" by simp
  have eneg: "e < 0"
  proof (rule ccontr)
    assume "\<not> e < 0"
    then have "(2::rat) powi 0 \<le> 2 powi e"
      by (intro power_int_increasing) simp_all
    with lo a1 show False by simp
  qed
  define k where "k = nat (- e - 1)"
  have ek: "e = - int (Suc k)" using eneg by (simp add: k_def)
  have "(2::rat) powi e = 1 / 2 ^ Suc k"
    unfolding ek by (simp only: power_int_minus_divide power_int_of_nat)
  then have lo': "1 / (2::rat) ^ Suc k \<le> a"
    using lo by simp
  have "e + 1 = - int k" using ek by simp
  then have "(2::rat) powi (e + 1) = 1 / 2 ^ k"
    by (simp only: power_int_minus_divide power_int_of_nat)
  then have hi': "a < 1 / (2::rat) ^ k"
    using hi by simp
  have y1: "1 / a \<le> (2::rat) ^ Suc k"
    using lo' pos by (simp add: field_simps del: power_Suc)
  have y2: "(2::rat) ^ k < 1 / a"
    using hi' pos by (simp add: field_simps)
  define c where "c = \<lceil>1 / a\<rceil>"
  have c1: "c \<le> 2 ^ Suc k"
    using y1 unfolding c_def by (simp add: ceiling_le_iff del: power_Suc)
  have c2: "2 ^ k < c"
    using y2 unfolding c_def by (simp add: less_ceiling_iff)
  define m where "m = nat (c - 1)"
  have "(0::int) < 2 ^ k"
    by simp
  then have "0 < c"
    using c2 by linarith
  then have cm: "c = int m + 1"
    by (simp add: m_def)
  have 1: "2 ^ k \<le> m"
    using c2 unfolding cm by (metis add.commute int_ops(2) of_nat_Suc of_nat_less_iff of_nat_numeral of_nat_power less_Suc_eq_le)
  have 2: "m < 2 ^ Suc k"
    using c1 unfolding cm by (metis add.commute of_nat_Suc of_nat_le_iff of_nat_numeral of_nat_power Suc_le_eq)
  have "bit_length m = Suc k"
    using 1 2 by (rule bit_length_eq)
  then show ?thesis
    using False by (simp add: binary_exponent_def c_def[symmetric] m_def[symmetric] ek)
qed

lemma round_double_pos:
  assumes pos: "0 < x" and lo: "2 powi e \<le> x" and hi: "x < 2 powi (e + 1)"
    and n: "round_ties_even (x / 2 powi (max e (- 1022) - 52)) = n"
    and fin: "of_int n * (2::rat) powi (max e (- 1022) - 52) < 2 powi 1024"
  shows "round_double x = Fin (of_int n * 2 powi (max e (- 1022) - 52))"
  using pos n fin binary_exponent_eq[OF pos lo hi]
  by (simp add: round_double_def Let_def)

lemma round_ties_even_of_int: "round_ties_even (of_int m) = m"
  by (simp add: round_ties_even_def)

lemma round_double_of_nat:
  assumes "s \<le> 2 ^ 53"
  shows "round_double (of_nat s) = Fin (of_nat s)"
proof (cases "s = 0")
  case True
  then show ?thesis by (simp add: round_double_def)
next
  case False
  define k where "k = bit_length s - 1"
  have bl: "\<exists>j. 2 ^ j \<le> s \<and> s < 2 ^ Suc j"
  proof -
    have "\<exists>j. 2 ^ j \<le> n \<and> n < 2 ^ Suc j" if "n \<noteq> 0" for n :: nat
      using that
    proof (induction n rule: less_induct)
      case (less n)
      show ?case
      proof (cases "n = 1")
        case True
        then show ?thesis by (intro exI[of _ 0]) simp
      next
        case False
        with less.prems have "n div 2 \<noteq> 0" "n div 2 < n" by auto
        then obtain j where "2 ^ j \<le> n div 2" "n div 2 < 2 ^ Suc j"
          using less.IH by blast
        then have "2 ^ Suc j \<le> n" "n < 2 ^ Suc (Suc j)" by auto
        then show ?thesis by blast
      qed
    qed
    then show ?thesis using False by blast
  qed
  then obtain j where j1: "2 ^ j \<le> s" and j2: "s < 2 ^ Suc j" by blast
  have j53: "j \<le> 53"
  proof (rule ccontr)
    assume "\<not> j \<le> 53"
    then have "54 \<le> j" by simp
    then have "(2::nat) ^ 54 \<le> 2 ^ j" by (intro power_increasing) simp_all
    with j1 assms show False by simp
  qed
  let ?x = "of_nat s :: rat"
  have pos: "0 < ?x" using False by simp
  have lo: "2 powi (int j) \<le> ?x"
    using j1 by (simp add: of_nat_power[symmetric] del: of_nat_power)
  have hi: "?x < 2 powi (int j + 1)"
  proof -
    have "?x < of_nat (2 ^ Suc j)" using j2 by (simp only: of_nat_less_iff)
    moreover have "int j + 1 = int (Suc j)" by simp
    ultimately show ?thesis by (simp only: power_int_of_nat) simp
  qed
  have m: "max (int j) (- 1022) = int j" by simp
  have quot: "?x / 2 powi (int j - 52) = of_int (if j \<le> 52 then int s * 2 ^ (52 - j) else int s div 2)"
  proof (cases "j \<le> 52")
    case True
    then have "int j - 52 = - int (52 - j)" by simp
    then have "(2::rat) powi (int j - 52) = 1 / 2 ^ (52 - j)"
      by (simp only: power_int_minus_divide power_int_of_nat)
    then show ?thesis using True by simp
  next
    case False
    with j53 have j: "j = 53" by simp
    then have "s = 2 ^ 53" using j1 assms by simp
    then show ?thesis using j by simp
  qed
  have n: "round_ties_even (?x / 2 powi (max (int j) (- 1022) - 52))
      = (if j \<le> 52 then int s * 2 ^ (52 - j) else int s div 2)"
    unfolding m quot by (rule round_ties_even_of_int)
  have undo: "of_int (if j \<le> 52 then int s * 2 ^ (52 - j) else int s div 2) * (2::rat) powi (max (int j) (- 1022) - 52) = ?x"
    unfolding m quot[symmetric] by simp
  have "?x \<le> of_nat (2 ^ 53)"
    using assms by (simp only: of_nat_le_iff)
  then have "?x < 2 powi 1024"
    by simp
  then have fin: "of_int (if j \<le> 52 then int s * 2 ^ (52 - j) else int s div 2) * (2::rat) powi (max (int j) (- 1022) - 52) < 2 powi 1024"
    unfolding undo .
  show ?thesis
    using round_double_pos[OF pos lo hi n fin] undo by simp
qed

lemma double_add_whole_numbers: "adds_whole_numbers_exactly double_add"
  unfolding adds_whole_numbers_exactly_def
proof (intro allI impI)
  fix m n :: nat
  assume "m + n \<le> 2 ^ 53"
  then have "round_double (of_nat (m + n)) = Fin (of_nat (m + n))"
    by (rule round_double_of_nat)
  then show "double_add (Fin (of_nat m)) (Fin (of_nat n)) = Fin (of_nat (m + n))"
    by simp
qed

lemma ageingStep_with_plus: "ageingStep_with (+) S now = ageingStep S now"
  by (intro ext) (simp add: ageingStep_with_def ageingStep_def)

lemma ageing_with_plus:
  "getReceivablesAgeing_with (+) S now st uid = getReceivablesAgeing S now st uid"
  "getPayablesAgeing_with (+) S now st uid = getPayablesAgeing S now st uid"
  by (simp_all add: getReceivablesAgeing_with_def getReceivablesAgeing_def
        getPayablesAgeing_with_def getPayablesAgeing_def ageingStep_with_plus)

lemma ageingStep_with_bucket:
  "ageingStep_with add S now r t =
     (case ageingBucket now t of
        None \<Rightarrow> r
      | Some Current \<Rightarrow> r\<lparr>current := add (current r) (Number_of_or0 S (InsertTransaction.balanceDue t))\<rparr>
      | Some Days1to30 \<Rightarrow> r\<lparr>days1to30 := add (days1to30 r) (Number_of_or0 S (InsertTransaction.balanceDue t))\<rparr>
      | Some Days31to60 \<Rightarrow> r\<lparr>days31to60 := add (days31to60 r) (Number_of_or0 S (InsertTransaction.balanceDue t))\<rparr>
      | Some Days60plus \<Rightarrow> r\<lparr>days60plus := add (days60plus r) (Number_of_or0 S (InsertTransaction.balanceDue t))\<rparr>)"
  by (simp add: ageingStep_with_def ageingBucket_def Let_def split: option.splits)

lemma ageingBucket_None_iff: "ageingBucket now t = None \<longleftrightarrow> InsertTransaction.dueDate t = None"
  by (simp add: ageingBucket_def Let_def split: option.splits)

lemma foldl_ageingStep_with:
  "foldl (ageingStep_with add S now) r ts =
     \<lparr> current = foldl add (current r)
         (map (\<lambda>t. Number_of_or0 S (InsertTransaction.balanceDue t)) (filter (\<lambda>t. ageingBucket now t = Some Current) ts)),
       days1to30 = foldl add (days1to30 r)
         (map (\<lambda>t. Number_of_or0 S (InsertTransaction.balanceDue t)) (filter (\<lambda>t. ageingBucket now t = Some Days1to30) ts)),
       days31to60 = foldl add (days31to60 r)
         (map (\<lambda>t. Number_of_or0 S (InsertTransaction.balanceDue t)) (filter (\<lambda>t. ageingBucket now t = Some Days31to60) ts)),
       days60plus = foldl add (days60plus r)
         (map (\<lambda>t. Number_of_or0 S (InsertTransaction.balanceDue t)) (filter (\<lambda>t. ageingBucket now t = Some Days60plus) ts)) \<rparr>"
proof (induction ts arbitrary: r)
  case Nil
  show ?case by simp
next
  case (Cons t ts)
  let ?b = "Number_of_or0 S (InsertTransaction.balanceDue t)"
  show ?case
  proof (cases "ageingBucket now t")
    case None
    then have "ageingStep_with add S now r t = r"
      by (simp add: ageingStep_with_bucket)
    then show ?thesis
      using None by (simp only: foldl_Cons Cons.IH) simp
  next
    case (Some b)
    show ?thesis
    proof (cases b)
      case Current
      then have "ageingStep_with add S now r t = r\<lparr>current := add (current r) ?b\<rparr>"
        using Some by (simp add: ageingStep_with_bucket)
      then show ?thesis
        using Some Current by (simp only: foldl_Cons Cons.IH) simp
    next
      case Days1to30
      then have "ageingStep_with add S now r t = r\<lparr>days1to30 := add (days1to30 r) ?b\<rparr>"
        using Some by (simp add: ageingStep_with_bucket)
      then show ?thesis
        using Some Days1to30 by (simp only: foldl_Cons Cons.IH) simp
    next
      case Days31to60
      then have "ageingStep_with add S now r t = r\<lparr>days31to60 := add (days31to60 r) ?b\<rparr>"
        using Some by (simp add: ageingStep_with_bucket)
      then show ?thesis
        using Some Days31to60 by (simp only: foldl_Cons Cons.IH) simp
    next
      case Days60plus
      then have "ageingStep_with add S now r t = r\<lparr>days60plus := add (days60plus r) ?b\<rparr>"
        using Some by (simp add: ageingStep_with_bucket)
      then show ?thesis
        using Some Days60plus by (simp only: foldl_Cons Cons.IH) simp
    qed
  qed
qed

lemma foldl_add_whole_numbers:
  assumes ex: "adds_whole_numbers_exactly add"
  shows "\<forall>t \<in> set ts. f t = Fin (of_nat (k t)) \<Longrightarrow> a + sum_list (map k ts) \<le> 2 ^ 53 \<Longrightarrow>
     foldl add (Fin (of_nat a)) (map f ts) = Fin (of_nat (a + sum_list (map k ts)))"
proof (induction ts arbitrary: a)
  case Nil
  show ?case by simp
next
  case (Cons t ts)
  have f: "f t = Fin (of_nat (k t))" using Cons.prems(1) by simp
  have "a + k t \<le> 2 ^ 53" using Cons.prems(2) by simp
  then have step: "add (Fin (of_nat a)) (Fin (of_nat (k t))) = Fin (of_nat (a + k t))"
    using ex by (simp add: adds_whole_numbers_exactly_def)
  have "foldl add (Fin (of_nat (a + k t))) (map f ts) = Fin (of_nat (a + k t + sum_list (map k ts)))"
    using Cons.prems by (intro Cons.IH) (simp_all add: add.assoc)
  then show ?case
    by (simp add: f step add.assoc)
qed

lemma sum_list_filter_le: "sum_list (map k (filter P ts)) \<le> sum_list (map k ts)" for k :: "'a \<Rightarrow> nat"
  by (induction ts) simp_all

lemma sum_list_by_bucket:
  "sum_list (map k (filter (\<lambda>t. InsertTransaction.dueDate t \<noteq> None) ts))
     = sum_list (map k (filter (\<lambda>t. ageingBucket now t = Some Current) ts))
       + sum_list (map k (filter (\<lambda>t. ageingBucket now t = Some Days1to30) ts))
       + sum_list (map k (filter (\<lambda>t. ageingBucket now t = Some Days31to60) ts))
       + sum_list (map k (filter (\<lambda>t. ageingBucket now t = Some Days60plus) ts))"
  for k :: "Transaction \<Rightarrow> nat"
proof (induction ts)
  case Nil
  show ?case by simp
next
  case (Cons t ts)
  show ?case
  proof (cases "ageingBucket now t")
    case None
    then show ?thesis
      using Cons.IH ageingBucket_None_iff[of now t] by simp
  next
    case (Some b)
    then have "InsertTransaction.dueDate t \<noteq> None"
      using ageingBucket_None_iff[of now t] by simp
    then show ?thesis
      using Some Cons.IH by (cases b) simp_all
  qed
qed

lemma bucket_sum_whole_numbers:
  assumes ex: "adds_whole_numbers_exactly add"
    and bal: "\<forall>t \<in> set (filter (\<lambda>t. InsertTransaction.dueDate t \<noteq> None) ts).
               Number_of_or0 S (InsertTransaction.balanceDue t) = Fin (of_nat (k t))"
    and bound: "sum_list (map k (filter (\<lambda>t. InsertTransaction.dueDate t \<noteq> None) ts)) \<le> 2 ^ 53"
  shows "bucket_sum add S now b ts
     = Fin (of_nat (sum_list (map k (filter (\<lambda>t. ageingBucket now t = Some b) ts))))"
proof -
  let ?sel = "filter (\<lambda>t. ageingBucket now t = Some b) ts"
  have sub: "set ?sel \<subseteq> set (filter (\<lambda>t. InsertTransaction.dueDate t \<noteq> None) ts)"
  proof
    fix t
    assume "t \<in> set ?sel"
    then have "t \<in> set ts" and "ageingBucket now t \<noteq> None"
      by simp_all
    then show "t \<in> set (filter (\<lambda>t. InsertTransaction.dueDate t \<noteq> None) ts)"
      by (simp add: ageingBucket_None_iff)
  qed
  have "sum_list (map k ?sel) \<le> sum_list (map k (filter (\<lambda>t. InsertTransaction.dueDate t \<noteq> None) ts))"
    unfolding sum_list_by_bucket[of k ts now] by (cases b) simp_all
  then have le: "0 + sum_list (map k ?sel) \<le> 2 ^ 53"
    using bound by simp
  have "\<forall>t \<in> set ?sel. Number_of_or0 S (InsertTransaction.balanceDue t) = Fin (of_nat (k t))"
    using bal sub by blast
  from foldl_add_whole_numbers[OF ex this le] show ?thesis
    by (simp add: bucket_sum_def)
qed

lemma bucket_total_whole_numbers:
  assumes ex: "adds_whole_numbers_exactly add"
    and bal: "\<forall>t \<in> set (filter (\<lambda>t. InsertTransaction.dueDate t \<noteq> None) ts).
               Number_of_or0 S (InsertTransaction.balanceDue t) = Fin (of_nat (k t))"
    and bound: "sum_list (map k (filter (\<lambda>t. InsertTransaction.dueDate t \<noteq> None) ts)) \<le> 2 ^ 53"
  shows "spec_bucket_total add
           \<lparr> current = bucket_sum add S now Current ts, days1to30 = bucket_sum add S now Days1to30 ts,
             days31to60 = bucket_sum add S now Days31to60 ts, days60plus = bucket_sum add S now Days60plus ts \<rparr>
     = Fin (of_nat (sum_list (map k (filter (\<lambda>t. InsertTransaction.dueDate t \<noteq> None) ts))))"
proof -
  let ?s = "\<lambda>b. sum_list (map k (filter (\<lambda>t. ageingBucket now t = Some b) ts))"
  have total: "sum_list (map k (filter (\<lambda>t. InsertTransaction.dueDate t \<noteq> None) ts))
      = ?s Current + ?s Days1to30 + ?s Days31to60 + ?s Days60plus"
    by (rule sum_list_by_bucket)
  have le: "?s Current + ?s Days1to30 + ?s Days31to60 + ?s Days60plus \<le> 2 ^ 53"
    using bound unfolding total .
  have add: "m + n \<le> 2 ^ 53 \<Longrightarrow> add (Fin (of_nat m)) (Fin (of_nat n)) = Fin (of_nat (m + n))" for m n
    using ex by (simp add: adds_whole_numbers_exactly_def)
  have 1: "add (Fin (of_nat (?s Current))) (Fin (of_nat (?s Days1to30))) = Fin (of_nat (?s Current + ?s Days1to30))"
    using le by (intro add) simp
  have 2: "add (Fin (of_nat (?s Current + ?s Days1to30))) (Fin (of_nat (?s Days31to60)))
      = Fin (of_nat (?s Current + ?s Days1to30 + ?s Days31to60))"
    using le by (intro add) simp
  have 3: "add (Fin (of_nat (?s Current + ?s Days1to30 + ?s Days31to60))) (Fin (of_nat (?s Days60plus)))
      = Fin (of_nat (?s Current + ?s Days1to30 + ?s Days31to60 + ?s Days60plus))"
    using le by (intro add) simp
  show ?thesis
    unfolding spec_bucket_total_def total
    by (simp only: Ageing.simps bucket_sum_whole_numbers[OF ex bal bound] 1 2 3)
qed

text \<open>The doubles that the literals 0.1, 0.2, 0.3 and 0.6 denote, and the sums of doubles
  that occur in the example with these balances.\<close>

lemma floor_rat_numerals:
  "\<lfloor>(numeral a :: rat) / numeral b\<rfloor> = numeral a div numeral b"
  using floor_divide_of_int_eq[of "numeral a" "numeral b", where ?'a = rat] by simp

lemma doubles_of_tenths:
  "round_double (1 / 10) = Fin (3602879701896397 / 36028797018963968)"
  "round_double (2 / 10) = Fin (3602879701896397 / 18014398509481984)"
  "round_double (3 / 10) = Fin (5404319552844595 / 18014398509481984)"
  "round_double (6 / 10) = Fin (5404319552844595 / 9007199254740992)"
proof -
  show "round_double (1 / 10) = Fin (3602879701896397 / 36028797018963968)"
    using round_double_pos[where x = "1 / 10" and e = "- 4" and n = 7205759403792794]
    by (simp add: round_ties_even_def Let_def floor_rat_numerals)
  show "round_double (2 / 10) = Fin (3602879701896397 / 18014398509481984)"
    using round_double_pos[where x = "2 / 10" and e = "- 3" and n = 7205759403792794]
    by (simp add: round_ties_even_def Let_def floor_rat_numerals)
  show "round_double (3 / 10) = Fin (5404319552844595 / 18014398509481984)"
    using round_double_pos[where x = "3 / 10" and e = "- 2" and n = 5404319552844595]
    by (simp add: round_ties_even_def Let_def floor_rat_numerals)
  show "round_double (6 / 10) = Fin (5404319552844595 / 9007199254740992)"
    using round_double_pos[where x = "6 / 10" and e = "- 1" and n = 5404319552844595]
    by (simp add: round_ties_even_def Let_def floor_rat_numerals)
qed

lemma double_add_tenths:
  "double_add (Fin 0) (Fin (3602879701896397 / 36028797018963968)) = Fin (3602879701896397 / 36028797018963968)"
  "double_add (Fin 0) (Fin (3602879701896397 / 18014398509481984)) = Fin (3602879701896397 / 18014398509481984)"
  "double_add (Fin 0) (Fin (5404319552844595 / 18014398509481984)) = Fin (5404319552844595 / 18014398509481984)"
  "double_add (Fin (3602879701896397 / 36028797018963968)) (Fin (3602879701896397 / 18014398509481984))
     = Fin (1351079888211149 / 4503599627370496)"
  "double_add (Fin (1351079888211149 / 4503599627370496)) (Fin (5404319552844595 / 18014398509481984))
     = Fin (1351079888211149 / 2251799813685248)"
  "double_add (Fin (1351079888211149 / 2251799813685248)) (Fin 0) = Fin (1351079888211149 / 2251799813685248)"
  "double_add (Fin (5404319552844595 / 18014398509481984)) (Fin (3602879701896397 / 18014398509481984)) = Fin (1 / 2)"
  "double_add (Fin (1 / 2)) (Fin (3602879701896397 / 36028797018963968)) = Fin (5404319552844595 / 9007199254740992)"
proof -
  show "double_add (Fin 0) (Fin (3602879701896397 / 36028797018963968)) = Fin (3602879701896397 / 36028797018963968)"
    using round_double_pos[where x = "3602879701896397 / 36028797018963968" and e = "- 4" and n = 7205759403792794]
    by (simp add: round_ties_even_def Let_def floor_rat_numerals)
  show "double_add (Fin 0) (Fin (3602879701896397 / 18014398509481984)) = Fin (3602879701896397 / 18014398509481984)"
    using round_double_pos[where x = "3602879701896397 / 18014398509481984" and e = "- 3" and n = 7205759403792794]
    by (simp add: round_ties_even_def Let_def floor_rat_numerals)
  show "double_add (Fin 0) (Fin (5404319552844595 / 18014398509481984)) = Fin (5404319552844595 / 18014398509481984)"
    using round_double_pos[where x = "5404319552844595 / 18014398509481984" and e = "- 2" and n = 5404319552844595]
    by (simp add: round_ties_even_def Let_def floor_rat_numerals)
  show "double_add (Fin (3602879701896397 / 36028797018963968)) (Fin (3602879701896397 / 18014398509481984))
     = Fin (1351079888211149 / 4503599627370496)"
    using round_double_pos[where x = "3602879701896397 / 36028797018963968 + 3602879701896397 / 18014398509481984"
        and e = "- 2" and n = 5404319552844596]
    by (simp add: round_ties_even_def Let_def floor_rat_numerals)
  show "double_add (Fin (1351079888211149 / 4503599627370496)) (Fin (5404319552844595 / 18014398509481984))
     = Fin (1351079888211149 / 2251799813685248)"
    using round_double_pos[where x = "1351079888211149 / 4503599627370496 + 5404319552844595 / 18014398509481984"
        and e = "- 1" and n = 5404319552844596]
    by (simp add: round_ties_even_def Let_def floor_rat_numerals)
  show "double_add (Fin (1351079888211149 / 2251799813685248)) (Fin 0) = Fin (1351079888211149 / 2251799813685248)"
    using round_double_pos[where x = "1351079888211149 / 2251799813685248" and e = "- 1" and n = 5404319552844596]
    by (simp add: round_ties_even_def Let_def floor_rat_numerals)
  show "double_add (Fin (5404319552844595 / 18014398509481984)) (Fin (3602879701896397 / 18014398509481984)) = Fin (1 / 2)"
    using round_double_pos[where x = "5404319552844595 / 18014398509481984 + 3602879701896397 / 18014398509481984"
        and e = "- 1" and n = 4503599627370496]
    by (simp add: round_ties_even_def Let_def floor_rat_numerals)
  show "double_add (Fin (1 / 2)) (Fin (3602879701896397 / 36028797018963968)) = Fin (5404319552844595 / 9007199254740992)"
    using round_double_pos[where x = "1 / 2 + 3602879701896397 / 36028797018963968" and e = "- 1" and n = 5404319552844595]
    by (simp add: round_ties_even_def Let_def floor_rat_numerals)
qed

text \<open>
  Claim C6, as amended. For every store, every instant and every addition \<open>add\<close>: each of
  the four buckets of \<open>getReceivablesAgeing\<close> is the sum, added to 0 in the order of the
  store, of \<open>Number(balanceDue || 0)\<close> over the open sales invoices of the owner that take
  the branch of that bucket; a transaction with a due date takes the branch of one bucket
  and a transaction without takes none. If the addition is exact on whole numbers up to
  \<open>2^53\<close>, as the addition of doubles is, and the balances of the transactions with a due
  date are whole numbers with a total of at most \<open>2^53\<close>, then
  \<open>current + days1to30 + days31to60 + days60plus\<close> is that total. The same holds for
  \<open>getPayablesAgeing\<close> and purchase bills.
\<close>

theorem ageing_buckets_partition:
  "(let ts = filter (isOpen uid ''sales_invoice'') (map snd (transactions st));
        dated = filter (\<lambda>t. InsertTransaction.dueDate t \<noteq> None) ts;
        a = getReceivablesAgeing_with add S now st uid
    in a = \<lparr> current = bucket_sum add S now Current ts,
               days1to30 = bucket_sum add S now Days1to30 ts,
               days31to60 = bucket_sum add S now Days31to60 ts,
               days60plus = bucket_sum add S now Days60plus ts \<rparr> \<and>
       (adds_whole_numbers_exactly add \<and>
        (\<forall>t \<in> set dated. Number_of_or0 S (InsertTransaction.balanceDue t) = Fin (of_nat (k t))) \<and>
        sum_list (map k dated) \<le> 2 ^ 53 \<longrightarrow>
          spec_bucket_total add a = Fin (of_nat (sum_list (map k dated))))) \<and>
   (let ts = filter (isOpen uid ''purchase_bill'') (map snd (transactions st));
        dated = filter (\<lambda>t. InsertTransaction.dueDate t \<noteq> None) ts;
        a = getPayablesAgeing_with add S now st uid
    in a = \<lparr> current = bucket_sum add S now Current ts,
               days1to30 = bucket_sum add S now Days1to30 ts,
               days31to60 = bucket_sum add S now Days31to60 ts,
               days60plus = bucket_sum add S now Days60plus ts \<rparr> \<and>
       (adds_whole_numbers_exactly add \<and>
        (\<forall>t \<in> set dated. Number_of_or0 S (InsertTransaction.balanceDue t) = Fin (of_nat (k t))) \<and>
        sum_list (map k dated) \<le> 2 ^ 53 \<longrightarrow>
          spec_bucket_total add a = Fin (of_nat (sum_list (map k dated))))) \<and>
   (\<forall>t. (InsertTransaction.dueDate t \<noteq> None) = (\<exists>b. ageingBucket now t = Some b))"
proof -
  have buckets: "foldl (ageingStep_with add S now)
        \<lparr>current = Fin 0, days1to30 = Fin 0, days31to60 = Fin 0, days60plus = Fin 0\<rparr> ts
      = \<lparr> current = bucket_sum add S now Current ts,
          days1to30 = bucket_sum add S now Days1to30 ts,
          days31to60 = bucket_sum add S now Days31to60 ts,
          days60plus = bucket_sum add S now Days60plus ts \<rparr>" for ts
    by (simp add: foldl_ageingStep_with bucket_sum_def)
  have once: "\<forall>t. (InsertTransaction.dueDate t \<noteq> None) = (\<exists>b. ageingBucket now t = Some b)"
    using ageingBucket_None_iff[of now] by (metis option.exhaust option.distinct(1))
  show ?thesis
    using once bucket_total_whole_numbers[where add = add and S = S and k = k and now = now]
    by (simp add: getReceivablesAgeing_with_def getPayablesAgeing_with_def Let_def buckets)
qed

text \<open>The addition of doubles on the store with balances "18750" (45 days overdue) and
  "42500" (15 days overdue): the buckets hold 0, 42500, 18750 and 0, and their total is
  61250.\<close>

theorem ageing_buckets_partition_witness:
  "adds_whole_numbers_exactly double_add \<and>
   getReceivablesAgeing_with double_add digits_to_number 3891600000 two_invoice_store 1
     = \<lparr>current = Fin 0, days1to30 = Fin 42500, days31to60 = Fin 18750, days60plus = Fin 0\<rparr> \<and>
   spec_bucket_total double_add
       (getReceivablesAgeing_with double_add digits_to_number 3891600000 two_invoice_store 1)
     = Fin 61250"
proof -
  let ?ts = "filter (isOpen 1 ''sales_invoice'') (map snd (transactions two_invoice_store))"
  let ?k = "\<lambda>t. if Transaction.id' t = 1 then 18750 else (42500 :: nat)"
  have ts: "?ts = [invoice_with 1 (Str ''18750'') 0, invoice_with 2 (Str ''42500'') 2592000000]"
    by (simp add: two_invoice_store_def empty_store_def isOpen_def invoice_with_def demo_header_def
          InsertTransaction.defs Transaction.defs)
  have dated: "filter (\<lambda>t. InsertTransaction.dueDate t \<noteq> None) ?ts = ?ts"
    unfolding ts by (simp add: invoice_with_def InsertTransaction.defs Transaction.defs)
  have bal: "\<forall>t \<in> set ?ts. Number_of_or0 digits_to_number (InsertTransaction.balanceDue t) = Fin (of_nat (?k t))"
    unfolding ts
    by (simp add: invoice_with_def demo_header_def InsertTransaction.defs Transaction.defs
          Number_of_or0_def js_or_def digits_to_number_def digit_of_def)
  have sum: "sum_list (map ?k ?ts) = 61250"
    unfolding ts by (simp add: invoice_with_def InsertTransaction.defs Transaction.defs)
  have b1: "ageingBucket 3891600000 (invoice_with 1 (Str ''18750'') 0) = Some Days31to60"
    and b2: "ageingBucket 3891600000 (invoice_with 2 (Str ''42500'') 2592000000) = Some Days1to30"
    by (simp_all add: ageingBucket_def invoice_with_def InsertTransaction.defs Transaction.defs
          Let_def floor_rat_numerals)
  have r: "double_add (Fin 0) (Fin 18750) = Fin 18750" "double_add (Fin 0) (Fin 42500) = Fin 42500"
    using round_double_of_nat[of 18750] round_double_of_nat[of 42500] by simp_all
  have bal1: "Number_of_or0 digits_to_number (InsertTransaction.balanceDue (invoice_with 1 (Str ''18750'') 0)) = Fin 18750"
    and bal2: "Number_of_or0 digits_to_number (InsertTransaction.balanceDue (invoice_with 2 (Str ''42500'') 2592000000)) = Fin 42500"
    by (simp_all add: invoice_with_def demo_header_def InsertTransaction.defs Transaction.defs
          Number_of_or0_def js_or_def digits_to_number_def digit_of_def)
  have sums: "bucket_sum double_add digits_to_number 3891600000 Current ?ts = Fin 0"
    "bucket_sum double_add digits_to_number 3891600000 Days1to30 ?ts = Fin 42500"
    "bucket_sum double_add digits_to_number 3891600000 Days31to60 ?ts = Fin 18750"
    "bucket_sum double_add digits_to_number 3891600000 Days60plus ?ts = Fin 0"
    unfolding ts using r
    by (simp_all add: bucket_sum_def b1 b2 bal1 bal2 del: double_add.simps)
  note w = ageing_buckets_partition[where add = double_add and S = digits_to_number
      and now = 3891600000 and st = two_invoice_store and uid = 1 and k = ?k,
      THEN conjunct1, unfolded Let_def]
  have a: "getReceivablesAgeing_with double_add digits_to_number 3891600000 two_invoice_store 1
     = \<lparr>current = Fin 0, days1to30 = Fin 42500, days31to60 = Fin 18750, days60plus = Fin 0\<rparr>"
    using w[THEN conjunct1] sums by simp
  have "spec_bucket_total double_add
       (getReceivablesAgeing_with double_add digits_to_number 3891600000 two_invoice_store 1)
     = Fin (of_nat (sum_list (map ?k (filter (\<lambda>t. InsertTransaction.dueDate t \<noteq> None) ?ts))))"
    using w[THEN conjunct2, rule_format] double_add_whole_numbers bal sum
    unfolding dated by simp
  then have t: "spec_bucket_total double_add
       (getReceivablesAgeing_with double_add digits_to_number 3891600000 two_invoice_store 1)
     = Fin 61250"
    unfolding dated sum by simp
  show ?thesis
    using double_add_whole_numbers a t by simp
qed

text \<open>
  Claim C6 as stated fails for the addition of doubles. The open invoices with balances 0.3,
  0.2 and 0.1 fall in \<open>days31to60\<close>, \<open>days1to30\<close> and \<open>current\<close>. The total
  \<open>current + days1to30 + days31to60 + days60plus\<close> is 0.6000000000000001
  (\<open>5404319552844596 / 2^53\<close>), while the three balances added in the order of the store
  give 0.6 (\<open>5404319552844595 / 2^53\<close>), and their exact sum is a third number.
\<close>

theorem ageing_buckets_sum_rounds:
  "getReceivablesAgeing_with double_add digits_to_number 3891600000 rounding_store 1
     = \<lparr> current = Fin (3602879701896397 / 36028797018963968),
         days1to30 = Fin (3602879701896397 / 18014398509481984),
         days31to60 = Fin (5404319552844595 / 18014398509481984),
         days60plus = Fin 0 \<rparr> \<and>
   spec_bucket_total double_add
       (getReceivablesAgeing_with double_add digits_to_number 3891600000 rounding_store 1)
     = Fin (5404319552844596 / 9007199254740992) \<and>
   map (\<lambda>t. Number_of_or0 digits_to_number (InsertTransaction.balanceDue t))
       (filter (\<lambda>t. InsertTransaction.dueDate t \<noteq> None)
          (filter (isOpen 1 ''sales_invoice'') (map snd (transactions rounding_store))))
     = [Fin (5404319552844595 / 18014398509481984), Fin (3602879701896397 / 18014398509481984),
        Fin (3602879701896397 / 36028797018963968)] \<and>
   foldl double_add (Fin 0)
       [Fin (5404319552844595 / 18014398509481984), Fin (3602879701896397 / 18014398509481984),
        Fin (3602879701896397 / 36028797018963968)]
     = Fin (5404319552844595 / 9007199254740992) \<and>
   sum_list
       [Fin (5404319552844595 / 18014398509481984), Fin (3602879701896397 / 18014398509481984),
        Fin (3602879701896397 / 36028797018963968)]
     = Fin (21617278211378381 / 36028797018963968) \<and>
   Fin (5404319552844596 / 9007199254740992) \<noteq> Fin (5404319552844595 / 9007199254740992) \<and>
   Fin (5404319552844596 / 9007199254740992) \<noteq> Fin (21617278211378381 / 36028797018963968)"
proof -
  let ?ts = "filter (isOpen 1 ''sales_invoice'') (map snd (transactions rounding_store))"
  have ts: "?ts = [invoice_with 1 (Num (Fin (5404319552844595 / 18014398509481984))) 0,
                   invoice_with 2 (Num (Fin (3602879701896397 / 18014398509481984))) 3024000000,
                   invoice_with 3 (Num (Fin (3602879701896397 / 36028797018963968))) 4320000000]"
    by (simp add: rounding_store_def empty_store_def isOpen_def invoice_with_def demo_header_def
          InsertTransaction.defs Transaction.defs)
  have b: "ageingBucket 3891600000 (invoice_with 1 (Num (Fin (5404319552844595 / 18014398509481984))) 0) = Some Days31to60"
    "ageingBucket 3891600000 (invoice_with 2 (Num (Fin (3602879701896397 / 18014398509481984))) 3024000000) = Some Days1to30"
    "ageingBucket 3891600000 (invoice_with 3 (Num (Fin (3602879701896397 / 36028797018963968))) 4320000000) = Some Current"
    by (simp_all add: ageingBucket_def invoice_with_def InsertTransaction.defs Transaction.defs
          Let_def floor_rat_numerals)
  have bal: "Number_of_or0 digits_to_number (InsertTransaction.balanceDue (invoice_with i (Num (Fin r)) d))
      = (if r = 0 then Fin 0 else Fin r)" for i r d
    by (simp add: invoice_with_def InsertTransaction.defs Transaction.defs Number_of_or0_def js_or_def)
  have a: "getReceivablesAgeing_with double_add digits_to_number 3891600000 rounding_store 1
     = \<lparr> current = Fin (3602879701896397 / 36028797018963968),
         days1to30 = Fin (3602879701896397 / 18014398509481984),
         days31to60 = Fin (5404319552844595 / 18014398509481984),
         days60plus = Fin 0 \<rparr>"
    unfolding getReceivablesAgeing_with_def Let_def ts
    by (simp add: ageingStep_with_bucket b bal double_add_tenths del: double_add.simps)
  have t: "spec_bucket_total double_add
       (getReceivablesAgeing_with double_add digits_to_number 3891600000 rounding_store 1)
     = Fin (5404319552844596 / 9007199254740992)"
    unfolding a spec_bucket_total_def
    by (simp add: double_add_tenths del: double_add.simps)
  have l: "map (\<lambda>t. Number_of_or0 digits_to_number (InsertTransaction.balanceDue t))
       (filter (\<lambda>t. InsertTransaction.dueDate t \<noteq> None) ?ts)
     = [Fin (5404319552844595 / 18014398509481984), Fin (3602879701896397 / 18014398509481984),
        Fin (3602879701896397 / 36028797018963968)]"
    unfolding ts by (simp add: bal) (simp add: invoice_with_def InsertTransaction.defs Transaction.defs)
  have f: "foldl double_add (Fin 0)
       [Fin (5404319552844595 / 18014398509481984), Fin (3602879701896397 / 18014398509481984),
        Fin (3602879701896397 / 36028797018963968)]
     = Fin (5404319552844595 / 9007199254740992)"
    by (simp add: double_add_tenths del: double_add.simps)
  have e: "sum_list
       [Fin (5404319552844595 / 18014398509481984), Fin (3602879701896397 / 18014398509481984),
        Fin (3602879701896397 / 36028797018963968)]
     = Fin (21617278211378381 / 36028797018963968)"
    by (simp add: zero_jsnum_def)
  show ?thesis
    using a t l f e by simp
qed

section \<open>Transaction controller: proofs\<close>

lemma created_transaction_fields:
  "Transaction.id' (InsertTransaction.extend d (Transaction.fields i c)) = i"
  "InsertTransaction.amount (InsertTransaction.extend d (Transaction.fields i c)) = InsertTransaction.amount d"
  "InsertTransaction.balanceDue (InsertTransaction.extend d (Transaction.fields i c)) = InsertTransaction.balanceDue d"
  by (simp_all add: InsertTransaction.defs Transaction.defs)

lemma created_item_id:
  "TransactionItem.id' (InsertTransactionItem.extend d (TransactionItem.fields i c)) = i"
  by (simp add: InsertTransactionItem.defs TransactionItem.defs)

lemma spread_totals:
  "InsertTransaction.amount (spread_updates t (empty_updates\<lparr>
       PartialInsertTransaction.amount := Some g, PartialInsertTransaction.balanceDue := Some g\<rparr>)) = g"
  "InsertTransaction.balanceDue (spread_updates t (empty_updates\<lparr>
       PartialInsertTransaction.amount := Some g, PartialInsertTransaction.balanceDue := Some g\<rparr>)) = g"
  by (simp_all add: spread_updates_def empty_updates_def)

lemma createItems_keeps_transactions:
  "createItems imp now tid raws acc st = (r, st') \<Longrightarrow>
     transactions st' = transactions st \<and> transactionIdCounter st' = transactionIdCounter st"
proof (induction raws arbitrary: acc st)
  case Nil
  then show ?case by simp
next
  case (Cons raw raws)
  show ?case
  proof (cases "insertTransactionItemSchema_parse imp raw tid")
    case (Inl e)
    with Cons.prems show ?thesis by simp
  next
    case (Inr itemData)
    obtain it st1 where c: "createTransactionItem now itemData st = (it, st1)"
      by (cases "createTransactionItem now itemData st")
    then have "transactions st1 = transactions st \<and> transactionIdCounter st1 = transactionIdCounter st"
      by (auto simp: createTransactionItem_def Let_def)
    moreover have "createItems imp now tid raws (acc @ [it]) st1 = (r, st')"
      using Cons.prems Inr c by simp
    ultimately show ?thesis
      using Cons.IH by metis
  qed
qed

lemma createItems_stored:
  "createItems imp now tid raws acc st = (Inr created, st') \<Longrightarrow> items_stored acc st \<Longrightarrow>
     items_stored created st'"
proof (induction raws arbitrary: acc st)
  case Nil
  then show ?case by simp
next
  case (Cons raw raws)
  show ?case
  proof (cases "insertTransactionItemSchema_parse imp raw tid")
    case (Inl e)
    with Cons.prems show ?thesis by simp
  next
    case (Inr itemData)
    obtain it st1 where c: "createTransactionItem now itemData st = (it, st1)"
      by (cases "createTransactionItem now itemData st")
    have "items_stored (acc @ [it]) st1"
      using c Cons.prems(2)
      by (auto simp: items_stored_def createTransactionItem_def Let_def update_conv' created_item_id)
    moreover have "createItems imp now tid raws (acc @ [it]) st1 = (Inr created, st')"
      using Cons.prems(1) Inr c by simp
    ultimately show ?thesis
      using Cons.IH by blast
  qed
qed


lemma create_201:
  assumes run: "TransactionController_createTransaction imp now req st = (res, st')"
    and ok: "statusCode res = 201"
  shows "\<exists>raw transactionData createdItems totals st2.
           transaction req = Some raw \<and>
           insertTransactionSchema_parse imp raw = Inr transactionData \<and>
           createItems imp now (transactionIdCounter st)
               (case items req of Array xs \<Rightarrow> xs | _ \<Rightarrow> []) []
               (snd (createTransaction now transactionData st)) = (Inr createdItems, st2) \<and>
           calculateTotals imp st2 createdItems = Inr totals \<and>
           body res = Created (fst (createTransaction now transactionData st)) createdItems totals \<and>
           st' = st2\<lparr>transactions :=
                   AList.update (transactionIdCounter st)
                     (spread_updates (fst (createTransaction now transactionData st))
                        (empty_updates\<lparr> PartialInsertTransaction.amount := Some (grandTotal totals),
                               PartialInsertTransaction.balanceDue := Some (grandTotal totals)\<rparr>))
                     (transactions st2)\<rparr>"
proof -
  let ?failed = "\<lambda>e. \<lparr>statusCode = 400, body = Failure ''Failed to create transaction'' e\<rparr>"
  obtain raw where raw: "transaction req = Some raw"
    using run ok by (cases "transaction req") (auto simp: TransactionController_createTransaction_def)
  have nf: "items req \<noteq> Falsy"
    using run ok raw by (auto simp: TransactionController_createTransaction_def)
  obtain transactionData where p: "insertTransactionSchema_parse imp raw = Inr transactionData"
    using run ok raw nf
    by (cases "insertTransactionSchema_parse imp raw")
       (auto simp: TransactionController_createTransaction_def)
  have v: "validateTransaction imp st transactionData = Inr ()"
    using run ok raw nf p
    by (cases "validateTransaction imp st transactionData")
       (auto simp: TransactionController_createTransaction_def)
  define t where "t = fst (createTransaction now transactionData st)"
  define st1 where "st1 = snd (createTransaction now transactionData st)"
  have ct: "createTransaction now transactionData st = (t, st1)"
    by (simp add: t_def st1_def)
  have tid: "Transaction.id' t = transactionIdCounter st"
    by (simp add: t_def createTransaction_def Let_def created_transaction_fields)
  have stored1: "getTransaction st1 (transactionIdCounter st) = Some t"
    by (simp add: t_def st1_def createTransaction_def Let_def getTransaction_def update_conv')
  let ?xs = "case items req of Array xs \<Rightarrow> xs | _ \<Rightarrow> []"
  obtain r st2 where ci: "createItems imp now (transactionIdCounter st) ?xs [] st1 = (r, st2)"
    by (cases "createItems imp now (transactionIdCounter st) ?xs [] st1")
  have step: "TransactionController_createTransaction imp now req st =
      (case r of
         Inl e \<Rightarrow> (?failed e, st2)
       | Inr createdItems \<Rightarrow>
           (case calculateTotals imp st2 createdItems of
              Inl e \<Rightarrow> (?failed e, st2)
            | Inr totals \<Rightarrow>
                (case updateTransaction (transactionIdCounter st)
                        (empty_updates\<lparr> PartialInsertTransaction.amount := Some (grandTotal totals),
                               PartialInsertTransaction.balanceDue := Some (grandTotal totals)\<rparr>) st2 of
                   Inl e \<Rightarrow> (?failed e, st2)
                 | Inr (u, st3) \<Rightarrow>
                     (\<lparr>statusCode = 201, body = Created t createdItems totals\<rparr>, st3))))"
    using raw nf p v ct ci tid
    by (simp add: TransactionController_createTransaction_def split: sum.splits)
  obtain createdItems where r: "r = Inr createdItems"
    using run ok step by (cases r) auto
  obtain totals where tot: "calculateTotals imp st2 createdItems = Inr totals"
    using run ok step r by (cases "calculateTotals imp st2 createdItems") auto
  let ?upd = "empty_updates\<lparr> PartialInsertTransaction.amount := Some (grandTotal totals),
                               PartialInsertTransaction.balanceDue := Some (grandTotal totals)\<rparr>"
  have "transactions st2 = transactions st1"
    using createItems_keeps_transactions[OF ci] by simp
  then have stored2: "getTransaction st2 (transactionIdCounter st) = Some t"
    using stored1 by (simp add: getTransaction_def)
  then have upd: "updateTransaction (transactionIdCounter st) ?upd st2
      = Inr (spread_updates t ?upd,
             st2\<lparr>transactions := AList.update (transactionIdCounter st) (spread_updates t ?upd) (transactions st2)\<rparr>)"
    by (simp add: updateTransaction_def Let_def)
  have res: "res = \<lparr>statusCode = 201, body = Created t createdItems totals\<rparr>"
    and st': "st' = st2\<lparr>transactions := AList.update (transactionIdCounter st) (spread_updates t ?upd) (transactions st2)\<rparr>"
    using run step r tot upd by simp_all
  show ?thesis
    using raw p ci r tot res st'
    by (auto simp: t_def st1_def)
qed

lemmas demo_eval =
  TransactionController_createTransaction_def demo_imports_def demo_request_def
  demo_rejected_request_def demo_invalid_header_request_def demo_header_def demo_item_def
  empty_store_def createTransaction_def createTransactionItem_def updateTransaction_def
  getTransaction_def spread_updates_def empty_updates_def calculateTotals_spec_def
  Number_or0_def digits_to_number_def digit_of_def Let_def
  InsertTransaction.defs Transaction.defs InsertTransactionItem.defs TransactionItem.defs

text \<open>
  Claim C1. Whenever \<open>createTransaction\<close> of the controller answers 201, the response
  carries the created items and the totals that \<open>calculateTotals\<close> computed from them (on
  the store as it was before the last write), every created item is in the store under its
  id, and the header stored under the id of the response has \<open>amount = grandTotal\<close> and
  \<open>balanceDue = grandTotal\<close>, whatever the request supplied for the two fields.
\<close>

theorem create_stores_grand_total:
  assumes run: "TransactionController_createTransaction imp now req st = (res, st')"
    and ok: "statusCode res = 201"
  shows "\<exists>header createdItems totals stored st2.
     body res = Created header createdItems totals \<and>
     calculateTotals imp st2 createdItems = Inr totals \<and>
     st' = st2\<lparr>transactions := AList.update (Transaction.id' header) stored (transactions st2)\<rparr> \<and>
     (\<forall>it \<in> set createdItems. map_of (transactionItems st') (TransactionItem.id' it) = Some it) \<and>
     getTransaction st' (Transaction.id' header) = Some stored \<and>
     InsertTransaction.amount stored = grandTotal totals \<and>
     InsertTransaction.balanceDue stored = grandTotal totals"
proof -
  from create_201[OF run ok] obtain raw transactionData createdItems totals st2 where
    ci: "createItems imp now (transactionIdCounter st)
               (case items req of Array xs \<Rightarrow> xs | _ \<Rightarrow> []) []
               (snd (createTransaction now transactionData st)) = (Inr createdItems, st2)"
    and tot: "calculateTotals imp st2 createdItems = Inr totals"
    and b: "body res = Created (fst (createTransaction now transactionData st)) createdItems totals"
    and st': "st' = st2\<lparr>transactions :=
                   AList.update (transactionIdCounter st)
                     (spread_updates (fst (createTransaction now transactionData st))
                        (empty_updates\<lparr> PartialInsertTransaction.amount := Some (grandTotal totals),
                               PartialInsertTransaction.balanceDue := Some (grandTotal totals)\<rparr>))
                     (transactions st2)\<rparr>"
    by blast
  have "items_stored createdItems st2"
    using createItems_stored[OF ci] by (simp add: items_stored_def)
  then have items: "\<forall>it \<in> set createdItems. map_of (transactionItems st') (TransactionItem.id' it) = Some it"
    by (simp add: items_stored_def st')
  have hid: "Transaction.id' (fst (createTransaction now transactionData st)) = transactionIdCounter st"
    by (simp add: createTransaction_def Let_def created_transaction_fields)
  have "getTransaction st' (transactionIdCounter st)
      = Some (spread_updates (fst (createTransaction now transactionData st))
                        (empty_updates\<lparr> PartialInsertTransaction.amount := Some (grandTotal totals),
                               PartialInsertTransaction.balanceDue := Some (grandTotal totals)\<rparr>))"
    by (simp add: st' getTransaction_def update_conv')
  then show ?thesis
    using b tot items hid spread_totals st' by metis
qed

text \<open>A request with \<open>amount\<close> "100" and \<open>balanceDue\<close> "0" and two lines of 45000 plus
  2250 tax each: the stored header has 94500 in both fields, and the store returns two
  items for the transaction.\<close>

theorem create_stores_grand_total_witness:
  "statusCode (fst (TransactionController_createTransaction demo_imports 5 demo_request empty_store)) = 201 \<and>
   InsertTransaction.amount demo_header = Str ''100'' \<and>
   InsertTransaction.balanceDue demo_header = Str ''0'' \<and>
   map_option InsertTransaction.amount
     (getTransaction (snd (TransactionController_createTransaction demo_imports 5 demo_request empty_store)) 1)
     = Some (Num (Fin 94500)) \<and>
   map_option InsertTransaction.balanceDue
     (getTransaction (snd (TransactionController_createTransaction demo_imports 5 demo_request empty_store)) 1)
     = Some (Num (Fin 94500)) \<and>
   length (getTransactionItemsByTransactionId
     (snd (TransactionController_createTransaction demo_imports 5 demo_request empty_store)) 1) = 2"
proof -
  obtain res st' where
    run: "TransactionController_createTransaction demo_imports 5 demo_request empty_store = (res, st')"
    by (cases "TransactionController_createTransaction demo_imports 5 demo_request empty_store")
  have ok: "statusCode res = 201"
    using run by (auto simp: demo_eval update_conv')
  have a: "map_option InsertTransaction.amount (getTransaction st' 1) = Some (Num (Fin 94500))"
    and b: "map_option InsertTransaction.balanceDue (getTransaction st' 1) = Some (Num (Fin 94500))"
    using run by (auto simp: demo_eval update_conv')
  have n: "length (getTransactionItemsByTransactionId st' 1) = 2"
    using run by (auto simp: demo_eval update_conv' getTransactionItemsByTransactionId_def)
  have h: "InsertTransaction.amount demo_header = Str ''100''"
    "InsertTransaction.balanceDue demo_header = Str ''0''"
    by (simp_all add: demo_header_def)
  show ?thesis
    using create_stores_grand_total[OF run ok] run ok a b n h by simp
qed

text \<open>
  Claim C10. Whenever the controller answers 201, the header in the response body is the
  object first stored: its \<open>amount\<close> and \<open>balanceDue\<close> are those of the parsed request,
  while the header in the store has \<open>grandTotal\<close> in both. So a supplied \<open>amount\<close> (or
  \<open>balanceDue\<close>) that is not \<open>grandTotal\<close> makes the field of the response differ from
  the stored one; the computed value is in the \<open>totals\<close> of the response.
\<close>

theorem create_response_keeps_supplied_amounts:
  assumes run: "TransactionController_createTransaction imp now req st = (res, st')"
    and ok: "statusCode res = 201"
  shows "\<exists>raw transactionData header createdItems totals stored st2.
     transaction req = Some raw \<and>
     insertTransactionSchema_parse imp raw = Inr transactionData \<and>
     body res = Created header createdItems totals \<and>
     calculateTotals imp st2 createdItems = Inr totals \<and>
     st' = st2\<lparr>transactions := AList.update (Transaction.id' header) stored (transactions st2)\<rparr> \<and>
     InsertTransaction.amount header = InsertTransaction.amount transactionData \<and>
     InsertTransaction.balanceDue header = InsertTransaction.balanceDue transactionData \<and>
     getTransaction st' (Transaction.id' header) = Some stored \<and>
     (InsertTransaction.amount transactionData \<noteq> grandTotal totals \<longrightarrow>
        InsertTransaction.amount header \<noteq> InsertTransaction.amount stored) \<and>
     (InsertTransaction.balanceDue transactionData \<noteq> grandTotal totals \<longrightarrow>
        InsertTransaction.balanceDue header \<noteq> InsertTransaction.balanceDue stored)"
proof -
  from create_201[OF run ok] obtain raw transactionData createdItems totals st2 where
    raw: "transaction req = Some raw"
    and p: "insertTransactionSchema_parse imp raw = Inr transactionData"
    and tot: "calculateTotals imp st2 createdItems = Inr totals"
    and b: "body res = Created (fst (createTransaction now transactionData st)) createdItems totals"
    and st': "st' = st2\<lparr>transactions :=
                   AList.update (transactionIdCounter st)
                     (spread_updates (fst (createTransaction now transactionData st))
                        (empty_updates\<lparr> PartialInsertTransaction.amount := Some (grandTotal totals),
                               PartialInsertTransaction.balanceDue := Some (grandTotal totals)\<rparr>))
                     (transactions st2)\<rparr>"
    by blast
  let ?header = "fst (createTransaction now transactionData st)"
  let ?stored = "spread_updates ?header
                        (empty_updates\<lparr> PartialInsertTransaction.amount := Some (grandTotal totals),
                               PartialInsertTransaction.balanceDue := Some (grandTotal totals)\<rparr>)"
  have hid: "Transaction.id' ?header = transactionIdCounter st"
    and ha: "InsertTransaction.amount ?header = InsertTransaction.amount transactionData"
    and hb: "InsertTransaction.balanceDue ?header = InsertTransaction.balanceDue transactionData"
    by (simp_all add: createTransaction_def Let_def created_transaction_fields)
  have g: "getTransaction st' (Transaction.id' ?header) = Some ?stored"
    by (simp add: hid st' getTransaction_def update_conv')
  have sa: "InsertTransaction.amount ?stored = grandTotal totals"
    and sb: "InsertTransaction.balanceDue ?stored = grandTotal totals"
    by (rule spread_totals)+
  show ?thesis
    using raw p b tot ha hb g sa sb st' hid
    by (intro exI[of _ raw] exI[of _ transactionData] exI[of _ ?header] exI[of _ createdItems]
          exI[of _ totals] exI[of _ ?stored] exI[of _ st2]) simp
qed

text \<open>The same request: the response shows "100" and "0", the store 94500.\<close>

theorem create_response_keeps_supplied_amounts_witness:
  "(\<exists>header createdItems totals.
      body (fst (TransactionController_createTransaction demo_imports 5 demo_request empty_store))
        = Created header createdItems totals \<and>
      Transaction.id' header = 1 \<and>
      InsertTransaction.amount header = Str ''100'' \<and>
      InsertTransaction.balanceDue header = Str ''0'' \<and>
      grandTotal totals = Num (Fin 94500)) \<and>
   statusCode (fst (TransactionController_createTransaction demo_imports 5 demo_request empty_store)) = 201 \<and>
   map_option (\<lambda>t. (InsertTransaction.amount t, InsertTransaction.balanceDue t))
     (getTransaction (snd (TransactionController_createTransaction demo_imports 5 demo_request empty_store)) 1)
     = Some (Num (Fin 94500), Num (Fin 94500))"
proof -
  obtain res st' where
    run: "TransactionController_createTransaction demo_imports 5 demo_request empty_store = (res, st')"
    by (cases "TransactionController_createTransaction demo_imports 5 demo_request empty_store")
  have ok: "statusCode res = 201"
    using run by (auto simp: demo_eval update_conv')
  have a: "\<exists>header createdItems totals.
      body res = Created header createdItems totals \<and>
      Transaction.id' header = 1 \<and>
      InsertTransaction.amount header = Str ''100'' \<and>
      InsertTransaction.balanceDue header = Str ''0'' \<and>
      grandTotal totals = Num (Fin 94500)"
    using run by (auto simp: demo_eval update_conv')
  have b: "map_option (\<lambda>t. (InsertTransaction.amount t, InsertTransaction.balanceDue t)) (getTransaction st' 1)
     = Some (Num (Fin 94500), Num (Fin 94500))"
    using run by (auto simp: demo_eval update_conv')
  show ?thesis
    using create_response_keeps_supplied_amounts[OF run ok] run ok a b by simp
qed




text \<open>
  Claim C8. For an id that the store does not have, \<open>updateTransaction\<close> of the store
  throws its not-found error, and the controller answers 400 (never 404) and leaves the
  store unchanged, whatever the body is.
\<close>

theorem update_missing_id_answers_400:
  "getTransaction st tid = None \<Longrightarrow>
     updateTransaction tid updates st = Inl (TransactionNotFound tid) \<and>
     statusCode (fst (TransactionController_updateTransaction partial_parse tid req_body st)) = 400 \<and>
     snd (TransactionController_updateTransaction partial_parse tid req_body st) = st"
  by (auto simp: updateTransaction_def TransactionController_updateTransaction_def split: sum.splits)

text \<open>Id 999 on the empty store, with the body \<open>{}\<close>.\<close>

theorem update_missing_id_answers_400_witness:
  "getTransaction empty_store 999 = None \<and>
   updateTransaction 999 empty_updates empty_store = Inl (TransactionNotFound 999) \<and>
   TransactionController_updateTransaction (\<lambda>b. Inr b) 999 empty_updates empty_store
     = (\<lparr>statusCode = 400, body = Failure ''Failed to update transaction'' (TransactionNotFound 999)\<rparr>,
        empty_store)"
proof -
  have h: "getTransaction empty_store 999 = None"
    by (simp add: getTransaction_def empty_store_def)
  show ?thesis
    using update_missing_id_answers_400[OF h, of empty_updates "\<lambda>b. Inr b" empty_updates] h
    by (simp add: TransactionController_updateTransaction_def)
qed

section \<open>GST breakup: proofs\<close>

lemma foldl_plus_sum_list:
  "foldl (\<lambda>sum item. sum + f item) a xs = a + sum_list (map f xs)"
  for a :: jsnum
  by (induction xs arbitrary: a) (simp_all add: add.assoc)

lemma Number_or0_Fin: "\<exists>r. Number_or0 S x = Fin r"
  by (cases "Number S x") (auto simp: Number_or0_def Let_def)

lemma sum_list_Number_or0_Fin: "\<exists>r. sum_list (map (\<lambda>item. Number_or0 S (f item)) xs) = Fin r"
proof (induction xs)
  case Nil
  show ?case by (simp add: zero_jsnum_def)
next
  case (Cons x xs)
  then obtain r where "sum_list (map (\<lambda>item. Number_or0 S (f item)) xs) = Fin r" by blast
  moreover obtain q where "Number_or0 S (f x) = Fin q" using Number_or0_Fin by blast
  ultimately show ?case by simp
qed

lemma Fin_zero_add: "Fin 0 + a = a"
  using add_0_left[of a] by (simp add: zero_jsnum_def)

lemma foldl_Set_add_same:
  "\<forall>x \<in> set xs. x = r \<Longrightarrow> foldl Set_add [r] xs = [r]"
  by (induction xs) (simp_all add: Set_add_def)

lemma new_Set_same:
  "xs \<noteq> [] \<Longrightarrow> \<forall>x \<in> set xs. x = r \<Longrightarrow> new_Set xs = [r]"
  by (cases xs) (simp_all add: new_Set_def Set_add_def foldl_Set_add_same)

lemma gst_group_of_rate:
  assumes "calculateGstBreakup S (Some its) party = Some groups" and "g \<in> set groups"
  shows "taxableAmount g = sum_list (map (\<lambda>item. Number_or0 S (InsertTransactionItem.amount item))
            (filter (\<lambda>item. js_strict_eq (Number_of_or0 S (taxRate item)) (GstGroup.rate g)) its))"
    and "total g = sum_list (map (\<lambda>item. Number_or0 S (taxAmount item))
            (filter (\<lambda>item. js_strict_eq (Number_of_or0 S (taxRate item)) (GstGroup.rate g)) its))"
    and "igst g = (if party_state party \<noteq> Str ''Same State as User'' then total g else Fin 0)"
    and "cgst g = (if party_state party \<noteq> Str ''Same State as User'' then Fin 0 else js_divide (total g) (Fin 2))"
    and "sgst g = (if party_state party \<noteq> Str ''Same State as User'' then Fin 0 else js_divide (total g) (Fin 2))"
  using assms
  by (auto simp: calculateGstBreakup_def Let_def foldl_plus_sum_list Fin_zero_add)

text \<open>
  Claim C2. For every group \<open>g\<close> of the breakup, \<open>total g\<close> is the tax of the items of its
  rate, a number; if no party was found or the state of the party is not the string
  "Same State as User", then \<open>igst = total\<close> and \<open>cgst = sgst = 0\<close>; otherwise \<open>igst = 0\<close>
  and \<open>cgst = sgst = total / 2\<close>. For the single item with amount 45000, rate 5 and tax
  2250 and a party of Maharashtra, the breakup is the one group
  \<open>{rate 5, taxableAmount 45000, igst 2250, cgst 0, sgst 0, total 2250}\<close>.
\<close>

theorem gst_breakup_jurisdiction:
  "(calculateGstBreakup S (Some its) party = Some groups \<and> g \<in> set groups \<longrightarrow>
      (\<exists>tax. total g = Fin tax \<and>
         Fin tax = sum_list (map (\<lambda>item. Number_or0 S (taxAmount item))
            (filter (\<lambda>item. js_strict_eq (Number_of_or0 S (taxRate item)) (GstGroup.rate g)) its)) \<and>
         (if party = None \<or> party_state party \<noteq> Str ''Same State as User''
          then igst g = Fin tax \<and> cgst g = Fin 0 \<and> sgst g = Fin 0
          else igst g = Fin 0 \<and> cgst g = Fin (tax / 2) \<and> sgst g = Fin (tax / 2)))) \<and>
   calculateGstBreakup S (Some [spec_example_item]) (Some maharashtra_party)
     = Some [\<lparr> GstGroup.rate = Fin 5, taxableAmount = Fin 45000, igst = Fin 2250,
                cgst = Fin 0, sgst = Fin 0, total = Fin 2250 \<rparr>]"
proof (intro conjI impI)
  assume h: "calculateGstBreakup S (Some its) party = Some groups \<and> g \<in> set groups"
  then have b: "calculateGstBreakup S (Some its) party = Some groups" and g: "g \<in> set groups"
    by simp_all
  let ?sum = "sum_list (map (\<lambda>item. Number_or0 S (taxAmount item))
            (filter (\<lambda>item. js_strict_eq (Number_of_or0 S (taxRate item)) (GstGroup.rate g)) its))"
  obtain tax where tax: "?sum = Fin tax"
    using sum_list_Number_or0_Fin[of S taxAmount] by blast
  have t: "total g = Fin tax"
    using gst_group_of_rate(2)[OF b g] tax by simp
  have none: "party = None \<Longrightarrow> party_state party \<noteq> Str ''Same State as User''"
    by (simp add: party_state_def)
  show "\<exists>tax. total g = Fin tax \<and> Fin tax = ?sum \<and>
         (if party = None \<or> party_state party \<noteq> Str ''Same State as User''
          then igst g = Fin tax \<and> cgst g = Fin 0 \<and> sgst g = Fin 0
          else igst g = Fin 0 \<and> cgst g = Fin (tax / 2) \<and> sgst g = Fin (tax / 2))"
    using t tax none gst_group_of_rate(3,4,5)[OF b g]
    by (intro exI[of _ tax]) auto
next
  show "calculateGstBreakup S (Some [spec_example_item]) (Some maharashtra_party)
     = Some [\<lparr> GstGroup.rate = Fin 5, taxableAmount = Fin 45000, igst = Fin 2250,
                cgst = Fin 0, sgst = Fin 0, total = Fin 2250 \<rparr>]"
    by (simp add: calculateGstBreakup_def spec_example_item_def maharashtra_party_def
          party_state_def new_Set_def Set_add_def Number_of_or0_def Number_or0_def js_or_def Let_def)
qed

text \<open>The laptop line of the demo data (decimal strings) for a party in the same state,
  and without a party.\<close>

theorem gst_breakup_jurisdiction_witness:
  "calculateGstBreakup digits_to_number (Some [demo_line]) (Some same_state_party)
     = Some [\<lparr> GstGroup.rate = Fin 5, taxableAmount = Fin 45000, igst = Fin 0,
                cgst = Fin 1125, sgst = Fin 1125, total = Fin 2250 \<rparr>] \<and>
   party_state (Some same_state_party) = Str ''Same State as User'' \<and>
   calculateGstBreakup digits_to_number (Some [demo_line]) None
     = Some [\<lparr> GstGroup.rate = Fin 5, taxableAmount = Fin 45000, igst = Fin 2250,
                cgst = Fin 0, sgst = Fin 0, total = Fin 2250 \<rparr>]"
proof -
  have a: "calculateGstBreakup digits_to_number (Some [demo_line]) (Some same_state_party)
     = Some [\<lparr> GstGroup.rate = Fin 5, taxableAmount = Fin 45000, igst = Fin 0,
                cgst = Fin 1125, sgst = Fin 1125, total = Fin 2250 \<rparr>]"
    by (simp add: calculateGstBreakup_def demo_line_def demo_item_def same_state_party_def
          party_state_def new_Set_def Set_add_def Number_of_or0_def Number_or0_def js_or_def Let_def
          digits_to_number_def digit_of_def InsertTransactionItem.defs TransactionItem.defs)
  have b: "calculateGstBreakup digits_to_number (Some [demo_line]) None
     = Some [\<lparr> GstGroup.rate = Fin 5, taxableAmount = Fin 45000, igst = Fin 2250,
                cgst = Fin 0, sgst = Fin 0, total = Fin 2250 \<rparr>]"
    by (simp add: calculateGstBreakup_def demo_line_def demo_item_def
          party_state_def new_Set_def Set_add_def Number_of_or0_def Number_or0_def js_or_def Let_def
          digits_to_number_def digit_of_def InsertTransactionItem.defs TransactionItem.defs)
  have s: "party_state (Some same_state_party) = Str ''Same State as User''"
    by (simp add: party_state_def same_state_party_def)
  note w = gst_breakup_jurisdiction[where S = digits_to_number and its = "[demo_line]"
      and party = "Some same_state_party"
      and groups = "[\<lparr> GstGroup.rate = Fin 5, taxableAmount = Fin 45000, igst = Fin 0,
                cgst = Fin 1125, sgst = Fin 1125, total = Fin 2250 \<rparr>]"
      and g = "\<lparr> GstGroup.rate = Fin 5, taxableAmount = Fin 45000, igst = Fin 0,
                cgst = Fin 1125, sgst = Fin 1125, total = Fin 2250 \<rparr>", THEN conjunct1, rule_format]
  show ?thesis
    using w a b s by simp
qed

lemma js_strict_eq_NaN: "js_strict_eq a NaN = False"
  by (cases a) simp_all

text \<open>
  Claim C5 fails on the code. If the items all have a \<open>taxRate\<close> that
  \<open>Number(taxRate || 0)\<close> converts to \<open>NaN\<close>, as the string "abc" does, the breakup is
  a single group of rate \<open>NaN\<close> whose \<open>taxableAmount\<close>, \<open>igst\<close>, \<open>cgst\<close>, \<open>sgst\<close> and
  \<open>total\<close> are 0, whatever the amounts of the items: the group is summed over the items
  with \<open>Number(item.taxRate || 0) === rate\<close>, and \<open>NaN === NaN\<close> is false. The claim
  asks for the sum of the amounts and the sum of the tax amounts of the items.
\<close>

theorem gst_breakup_drops_unparsed_rate:
  assumes ne: "its \<noteq> []"
    and nan: "\<forall>item \<in> set its. Number_of_or0 S (taxRate item) = NaN"
  shows "calculateGstBreakup S (Some its) party
     = Some [\<lparr> GstGroup.rate = NaN, taxableAmount = Fin 0, igst = Fin 0,
                cgst = Fin 0, sgst = Fin 0, total = Fin 0 \<rparr>]"
proof -
  have rates: "new_Set (map (\<lambda>item. Number_of_or0 S (taxRate item)) its) = [NaN]"
    using ne nan by (intro new_Set_same) auto
  have none: "filter (\<lambda>item. js_strict_eq (Number_of_or0 S (taxRate item)) NaN) its = []"
    by (simp add: filter_empty_conv js_strict_eq_NaN)
  show ?thesis
    by (simp add: calculateGstBreakup_def Let_def rates none)
qed

text \<open>The laptop line with \<open>taxRate\<close> "abc": its amount 45000 and its tax 2250 are in
  no group.\<close>

theorem gst_breakup_drops_unparsed_rate_witness:
  "[bad_rate_line] \<noteq> [] \<and>
   taxRate bad_rate_line = Str ''abc'' \<and>
   Number_of_or0 digits_to_number (taxRate bad_rate_line) = NaN \<and>
   Number_or0 digits_to_number (InsertTransactionItem.amount bad_rate_line) = Fin 45000 \<and>
   Number_or0 digits_to_number (taxAmount bad_rate_line) = Fin 2250 \<and>
   calculateGstBreakup digits_to_number (Some [bad_rate_line]) None
     = Some [\<lparr> GstGroup.rate = NaN, taxableAmount = Fin 0, igst = Fin 0,
                cgst = Fin 0, sgst = Fin 0, total = Fin 0 \<rparr>]"
proof -
  have r: "Number_of_or0 digits_to_number (taxRate bad_rate_line) = NaN"
    by (simp add: bad_rate_line_def Number_of_or0_def js_or_def digits_to_number_def digit_of_def)
  then have nan: "\<forall>item \<in> set [bad_rate_line]. Number_of_or0 digits_to_number (taxRate item) = NaN"
    by simp
  have ne: "[bad_rate_line] \<noteq> []"
    by simp
  have v: "taxRate bad_rate_line = Str ''abc''"
    "Number_or0 digits_to_number (InsertTransactionItem.amount bad_rate_line) = Fin 45000"
    "Number_or0 digits_to_number (taxAmount bad_rate_line) = Fin 2250"
    by (simp_all add: bad_rate_line_def demo_line_def demo_item_def Number_or0_def
          digits_to_number_def digit_of_def InsertTransactionItem.defs TransactionItem.defs)
  show ?thesis
    using gst_breakup_drops_unparsed_rate[OF ne nan, of None] r v by simp
qed

section \<open>Status badge: proofs\<close>

lemma StatusBadge_unfold:
  "StatusBadge S D now st due bal =
     (if truthy bal \<and> js_strict_eq (Number S bal) (Fin 0) then ''paid''
      else if truthy bal \<and> js_gt (Number S bal) (Fin 0) \<and> truthy due \<and>
              js_gt (Fin (of_int now)) (getTime (new_Date D due)) then ''overdue''
      else st)"
  by (simp add: StatusBadge_def StatusBadge_body_def Let_def)

lemma js_strict_eq_iff: "js_strict_eq a (Fin b) = (a = Fin b)"
  by (cases a) simp_all

lemma js_gt_zero_iff: "js_gt a (Fin 0) = (\<exists>r. a = Fin r \<and> 0 < r)"
  by (cases a) simp_all

lemma js_gt_now_iff: "js_gt (Fin n) a = (\<exists>t. a = Fin t \<and> t < n)"
  by (cases a) simp_all

text \<open>
  Claim C7, as amended. The badge shows "paid" when \<open>balanceDue\<close> is truthy and converts to
  the number 0, whatever the stored status; otherwise "overdue" when \<open>balanceDue\<close> is truthy
  and converts to a number above 0, \<open>dueDate\<close> is truthy and its instant is strictly before
  the evaluation instant; otherwise the stored status. So a non-empty string that converts
  to 0 shows "paid", while the number 0, the empty string, \<open>null\<close> and \<open>undefined\<close> are
  falsy and show the stored status.
\<close>

theorem status_badge_display:
  "StatusBadge S D now st due bal =
     (if truthy bal \<and> Number S bal = Fin 0 then ''paid''
      else if truthy bal \<and> (\<exists>r. Number S bal = Fin r \<and> 0 < r) \<and> truthy due \<and>
              (\<exists>t. getTime (new_Date D due) = Fin t \<and> t < of_int now) then ''overdue''
      else st) \<and>
   (s \<noteq> [] \<and> S s = Fin 0 \<longrightarrow> StatusBadge S D now st due (Str s) = ''paid'') \<and>
   StatusBadge S D now st due (Num (Fin 0)) = st \<and>
   StatusBadge S D now st due (Str []) = st \<and>
   StatusBadge S D now st due Null = st \<and>
   StatusBadge S D now st due Undefined = st"
  by (auto simp: StatusBadge_unfold js_strict_eq_iff js_gt_zero_iff js_gt_now_iff)

text \<open>The examples of the specification: balance "0" with status pending shows "paid"; a
  due date 45 days before the evaluation instant with balance "18750" shows "overdue"; a due
  date at the evaluation instant shows the stored status.\<close>

theorem status_badge_display_witness:
  "StatusBadge digits_to_number (\<lambda>s. NaN) 3891600000 ''pending'' Null (Str ''0'') = ''paid'' \<and>
   StatusBadge digits_to_number (\<lambda>s. NaN) 3891600000 ''pending'' (DateObj (Date (Fin 0))) (Str ''18750'')
     = ''overdue'' \<and>
   StatusBadge digits_to_number (\<lambda>s. NaN) 3891600000 ''pending'' (DateObj (Date (Fin 3891600000))) (Str ''18750'')
     = ''pending''"
proof -
  have z: "''0'' \<noteq> [] \<and> digits_to_number ''0'' = Fin 0"
    by (simp add: digits_to_number_def digit_of_def)
  have b: "Number digits_to_number (Str ''18750'') = Fin 18750"
    by (simp add: digits_to_number_def digit_of_def)
  note w = status_badge_display[where S = digits_to_number and D = "\<lambda>s. NaN" and now = 3891600000
      and st = "''pending''" and s = "''0''"]
  show ?thesis
    using w[where due = Null and bal = "Str ''0''", THEN conjunct2, THEN conjunct1, rule_format, OF z]
      w[where due = "DateObj (Date (Fin 0))" and bal = "Str ''18750''", THEN conjunct1]
      w[where due = "DateObj (Date (Fin 3891600000))" and bal = "Str ''18750''", THEN conjunct1]
      b
    by simp
qed

text \<open>
  Claim C7 as stated fails. The number 0 as \<open>balanceDue\<close> shows the stored status, not
  "paid". A due date one minute before the evaluation instant, on the same calendar day
  (day 20000 after the epoch, 12:07 and 12:08 UTC), with balance "100" shows "overdue": the
  comparison is of instants, not of calendar dates.
\<close>

theorem status_badge_not_as_claimed:
  "StatusBadge digits_to_number (\<lambda>s. NaN) 1728043680000 ''pending'' Null (Num (Fin 0)) = ''pending'' \<and>
   \<lfloor>(1728043620000 :: rat) / 86400000\<rfloor> = 20000 \<and>
   \<lfloor>(1728043680000 :: rat) / 86400000\<rfloor> = 20000 \<and>
   StatusBadge digits_to_number (\<lambda>s. NaN) 1728043680000 ''pending''
       (DateObj (Date (Fin 1728043620000))) (Str ''100'') = ''overdue''"
  by (simp add: StatusBadge_unfold digits_to_number_def digit_of_def floor_unique)

end
